theory Spec2Isabelle
  imports Complex_Main "HOL-Library.Word" "HOL-Library.AList"
begin

section \<open>Data model of \<open>io_scene_vox.py\<close>\<close>

text \<open>
  The importer reads a MagicaVoxel \<open>.vox\<close> file, builds one \<open>VoxelObject\<close> per
  \<open>XYZI\<close> chunk, resolves the scene graph and extracts one quad mesh per colour.
  Python integers are unbounded (\<open>int\<close>); a Python float is represented by the
  real number it denotes, and the addition of rotations, which rounds on floats, is a
  parameter of the model; every exception the interpreter can raise on the modelled
  paths is a value of \<open>error\<close>, returned as \<open>Inl\<close>.
\<close>

type_synonym byte = "8 word"
type_synonym bytes = "byte list"

datatype error =
    StructError | AssertionError | ValueError | KeyError | IndexError
  | TypeError | UnboundLocalError | RecursionError | UnicodeDecodeError

text \<open>\<open>class Vec3\<close>: three fields of one number type, positions over \<open>int\<close>.\<close>

datatype 'a Vec3 = Vec3 (vx: 'a) (vy: 'a) (vz: 'a)

text \<open>\<open>Vec3._index\<close>: \<open>self.x + self.y * 256 + self.z * 256 * 256\<close>.\<close>

definition Vec3_index :: "int Vec3 \<Rightarrow> int" where
  "Vec3_index p = vx p + vy p * 256 + vz p * 256 * 256"

text \<open>
  \<open>class VoxelObject\<close>. The dictionary \<open>self.voxels\<close> is iterated by \<open>generate\<close>, so
  it is an association list in insertion order; assigning to a key that is present keeps
  the key's place (\<open>AList.update\<close>), as a Python \<open>dict\<close> does.
\<close>

record VoxelObject =
  vsize :: "int Vec3"
  voxels :: "(int \<times> (int Vec3 \<times> int)) list"
  used_colors :: "int list"
  position :: "int Vec3"
  rotation :: "real Vec3"

type_synonym voxel = "int \<times> int \<times> int \<times> int"

text \<open>The body of the loop \<open>for vox in Voxels\<close> of \<open>VoxelObject.__init__\<close>.\<close>

fun init_voxels ::
  "voxel list \<Rightarrow> (int \<times> (int Vec3 \<times> int)) list \<times> int list
     \<Rightarrow> (int \<times> (int Vec3 \<times> int)) list \<times> int list" where
  "init_voxels [] (vs, used) = (vs, used)"
| "init_voxels ((v0, v1, v2, v3) # rest) (vs, used) =
     (let pos = Vec3 v0 v1 v2;
          vs' = AList.update (Vec3_index pos) (pos, v3) vs;
          used' = (if v3 \<in> set used then used else used @ [v3])
      in init_voxels rest (vs', used'))"

definition VoxelObject_init :: "voxel list \<Rightarrow> int Vec3 \<Rightarrow> VoxelObject" where
  "VoxelObject_init Voxels Size =
     (let (vs, used) = init_voxels Voxels ([], [])
      in \<lparr> vsize = Size, voxels = vs, used_colors = used,
           position = Vec3 0 0 0, rotation = Vec3 0 0 0 \<rparr>)"

definition getVox :: "VoxelObject \<Rightarrow> int Vec3 \<Rightarrow> int" where
  "getVox self pos =
     (case map_of (voxels self) (Vec3_index pos) of
        Some (p, c) \<Rightarrow> c
      | None \<Rightarrow> 0)"

definition compareVox :: "VoxelObject \<Rightarrow> int \<Rightarrow> int Vec3 \<Rightarrow> bool" where
  "compareVox self colA b = (let colB = getVox self b in if colB = 0 then False else True)"

subsection \<open>Mesh extraction: the geometry loops of \<open>VoxelObject.generate\<close>\<close>

type_synonym vert = "int \<times> int \<times> int"
type_synonym mesh = "vert list \<times> int list list"

text \<open>
  Four \<open>verts.append\<close> followed by
  \<open>faces.append([len(verts) - 4, len(verts) - 3, len(verts) - 2, len(verts) - 1])\<close>.
\<close>

definition add_face :: "vert list \<Rightarrow> mesh \<Rightarrow> mesh" where
  "add_face q m =
     (let verts = fst m @ q; n = int (length verts)
      in (verts, snd m @ [[n - 4, n - 3, n - 2, n - 1]]))"

text \<open>The six neighbour tests for one voxel of the current colour, in source order.\<close>

definition voxel_faces :: "VoxelObject \<Rightarrow> int Vec3 \<Rightarrow> int \<Rightarrow> mesh \<Rightarrow> mesh" where
  "voxel_faces self pos colID m0 =
     (let x = vx pos; y = vy pos; z = vz pos;
          m1 = (if \<not> compareVox self colID (Vec3 (x + 1) y z)
                then add_face [(x + 1, y, z), (x + 1, y + 1, z),
                               (x + 1, y + 1, z + 1), (x + 1, y, z + 1)] m0 else m0);
          m2 = (if \<not> compareVox self colID (Vec3 x (y + 1) z)
                then add_face [(x + 1, y + 1, z), (x + 1, y + 1, z + 1),
                               (x, y + 1, z + 1), (x, y + 1, z)] m1 else m1);
          m3 = (if \<not> compareVox self colID (Vec3 x y (z + 1))
                then add_face [(x, y, z + 1), (x, y + 1, z + 1),
                               (x + 1, y + 1, z + 1), (x + 1, y, z + 1)] m2 else m2);
          m4 = (if \<not> compareVox self colID (Vec3 (x - 1) y z)
                then add_face [(x, y, z), (x, y + 1, z),
                               (x, y + 1, z + 1), (x, y, z + 1)] m3 else m3);
          m5 = (if \<not> compareVox self colID (Vec3 x (y - 1) z)
                then add_face [(x, y, z), (x, y, z + 1),
                               (x + 1, y, z + 1), (x + 1, y, z)] m4 else m4);
          m6 = (if \<not> compareVox self colID (Vec3 x y (z - 1))
                then add_face [(x, y, z), (x + 1, y, z),
                               (x + 1, y + 1, z), (x, y + 1, z)] m5 else m5)
      in m6)"

text \<open>
  \<open>for key in self.voxels\<close>: voxels of another colour are skipped (\<open>continue\<close>), the
  others contribute their exposed faces to the \<open>verts\<close> and \<open>faces\<close> of this colour.
\<close>

fun color_loop ::
  "VoxelObject \<Rightarrow> int \<Rightarrow> (int \<times> (int Vec3 \<times> int)) list \<Rightarrow> mesh \<Rightarrow> mesh" where
  "color_loop self Col [] m = m"
| "color_loop self Col ((key, (pos, colID)) # rest) m =
     (if colID \<noteq> Col then color_loop self Col rest m
      else color_loop self Col rest (voxel_faces self pos colID m))"

text \<open>
  \<open>generate\<close> returns early (here \<open>None\<close>) for an object without colours; otherwise it
  hands, for every used colour in order, \<open>verts\<close> and \<open>faces\<close> to \<open>mesh.from_pydata\<close>.
  The host application's objects, lights and materials are not part of the model.
\<close>

definition generate :: "VoxelObject \<Rightarrow> (int \<times> mesh) list option" where
  "generate self =
     (if length (used_colors self) = 0 then None
      else Some (map (\<lambda>Col. (Col, color_loop self Col (voxels self) ([], [])))
                     (used_colors self)))"

text \<open>A face of \<open>faces\<close> read back as the four vertex positions it indexes.\<close>

definition quads :: "mesh \<Rightarrow> vert list list" where
  "quads m = map (map (\<lambda>i. fst m ! nat i)) (snd m)"

section \<open>Scene graph resolution\<close>

text \<open>
  The three node tables are only looked up by key, so they are maps.
  A transform node is \<open>[child_id, Vec3 translation, rotation]\<close>, the rotation a sequence
  of three floats (\<open>[0, 0, 0]\<close> or the tuple of \<open>rotation_to_euler\<close>).
\<close>

type_synonym transform_nodes = "int \<rightharpoonup> (int \<times> int Vec3 \<times> real list)"
type_synonym group_nodes = "int \<rightharpoonup> int list"
type_synonym shape_nodes = "int \<rightharpoonup> int list"
type_synonym model_table = "int \<rightharpoonup> VoxelObject"

text \<open>\<open>Vec3(a.x + b.x, a.y + b.y, a.z + b.z)\<close>.\<close>

definition add_location :: "int Vec3 \<Rightarrow> int Vec3 \<Rightarrow> int Vec3" where
  "add_location current_location new_location =
     Vec3 (vx current_location + vx new_location)
          (vy current_location + vy new_location)
          (vz current_location + vz new_location)"

text \<open>
  \<open>[sum(pair) for pair in zip(new_rotation, current_rotation)]\<close>. \<open>sum(pair)\<close> is
  \<open>(0 + pair[0]) + pair[1]\<close> with Python's \<open>+\<close> on the numbers of a rotation, the
  integer 0 or floats. On floats \<open>+\<close> rounds, so it is not the addition of the reals:
  it is the parameter \<open>fadd\<close>, and nothing is assumed about it.
\<close>

definition add_rotation ::
  "(real \<Rightarrow> real \<Rightarrow> real) \<Rightarrow> real list \<Rightarrow> real list \<Rightarrow> real list" where
  "add_rotation fadd new_rotation current_rotation =
     map (\<lambda>(a, b). fadd (fadd 0 a) b) (zip new_rotation current_rotation)"

text \<open>
  The shape branch: \<open>models[model_id]\<close> raises \<open>KeyError\<close> for an unknown model,
  \<open>Vec3(*current_rotation)\<close> raises \<open>TypeError\<close> unless the rotation has three
  components; the deep copy is stamped and appended to \<open>transformed_models\<close>.
\<close>

fun place_models ::
  "model_table \<Rightarrow> int Vec3 \<Rightarrow> real list \<Rightarrow> int list \<Rightarrow> VoxelObject list
     \<Rightarrow> error + VoxelObject list" where
  "place_models models loc rot [] acc = Inr acc"
| "place_models models loc rot (model_id # rest) acc =
     (case models model_id of
        None \<Rightarrow> Inl KeyError
      | Some model \<Rightarrow>
          (case rot of
             [rx, ry, rz] \<Rightarrow>
               place_models models loc rot rest
                 (acc @ [model\<lparr>rotation := Vec3 rx ry rz, position := loc\<rparr>])
           | _ \<Rightarrow> Inl TypeError))"

text \<open>
  \<open>traverse_scene_graph\<close> is recursive without a visited set, so it ends on a cyclic
  graph only through the interpreter's recursion limit. The first argument is the number
  of further nested calls the interpreter allows; a call made with none left raises
  \<open>RecursionError\<close>. The last argument is the list \<open>transformed_models\<close> so far.
  A node id found in none of the three tables falls through the \<open>if/elif/elif\<close>.
\<close>

fun traverse_scene_graph ::
  "nat \<Rightarrow> (real \<Rightarrow> real \<Rightarrow> real) \<Rightarrow> transform_nodes \<Rightarrow> group_nodes \<Rightarrow> shape_nodes
     \<Rightarrow> model_table \<Rightarrow> int Vec3 \<Rightarrow> real list \<Rightarrow> int \<Rightarrow> VoxelObject list
     \<Rightarrow> error + VoxelObject list"
and traverse_children ::
  "nat \<Rightarrow> (real \<Rightarrow> real \<Rightarrow> real) \<Rightarrow> transform_nodes \<Rightarrow> group_nodes \<Rightarrow> shape_nodes
     \<Rightarrow> model_table \<Rightarrow> int Vec3 \<Rightarrow> real list \<Rightarrow> int list \<Rightarrow> VoxelObject list
     \<Rightarrow> error + VoxelObject list"
where
  "traverse_scene_graph 0 fadd transforms groups shapes models loc rot current_id acc =
     Inl RecursionError"
| "traverse_scene_graph (Suc n) fadd transforms groups shapes models loc rot current_id acc =
     (case transforms current_id of
        Some (child_id, new_location, new_rotation) \<Rightarrow>
          traverse_scene_graph n fadd transforms groups shapes models
            (add_location loc new_location) (add_rotation fadd new_rotation rot) child_id acc
      | None \<Rightarrow>
          (case groups current_id of
             Some children \<Rightarrow>
               traverse_children n fadd transforms groups shapes models loc rot children acc
           | None \<Rightarrow>
               (case shapes current_id of
                  Some model_ids \<Rightarrow> place_models models loc rot model_ids acc
                | None \<Rightarrow> Inr acc)))"
| "traverse_children n fadd transforms groups shapes models loc rot [] acc = Inr acc"
| "traverse_children n fadd transforms groups shapes models loc rot (child_id # rest) acc =
     (case traverse_scene_graph n fadd transforms groups shapes models loc rot child_id acc of
        Inl e \<Rightarrow> Inl e
      | Inr acc' \<Rightarrow>
          traverse_children n fadd transforms groups shapes models loc rot rest acc')"

text \<open>
  \<open>solve_scene_graph\<close>: \<open>ValueError\<close> when node 0 is no transform node, otherwise the
  traversal from node 0 with location \<open>Vec3(0, 0, 0)\<close> and rotation \<open>[0, 0, 0]\<close>.
\<close>

definition solve_scene_graph ::
  "nat \<Rightarrow> (real \<Rightarrow> real \<Rightarrow> real) \<Rightarrow> transform_nodes \<Rightarrow> group_nodes \<Rightarrow> shape_nodes
     \<Rightarrow> model_table \<Rightarrow> error + VoxelObject list" where
  "solve_scene_graph depth fadd transforms groups shapes models =
     (if transforms 0 = None then Inl ValueError
      else traverse_scene_graph depth fadd transforms groups shapes models
             (Vec3 0 0 0) [0, 0, 0] 0 [])"

section \<open>Rotation byte\<close>

text \<open>\<open>bin(n)\<close> for an integer: sign, \<open>0b\<close>, binary digits without leading zeros.\<close>

fun bin_digits :: "nat \<Rightarrow> string" where
  "bin_digits n =
     (if n < 2 then [if n = 1 then CHR ''1'' else CHR ''0'']
      else bin_digits (n div 2) @ [if n mod 2 = 1 then CHR ''1'' else CHR ''0''])"

declare bin_digits.simps [simp del]

definition bin :: "int \<Rightarrow> string" where
  "bin n = (if n < 0 then ''-0b'' @ bin_digits (nat (- n)) else ''0b'' @ bin_digits (nat n))"

text \<open>\<open>str.zfill\<close> on a string that does not start with a sign: pad with zeros on the left.\<close>

definition zfill :: "nat \<Rightarrow> string \<Rightarrow> string" where
  "zfill width s = replicate (width - length s) CHR ''0'' @ s"

text \<open>
  \<open>int(s, 2)\<close> on the strings that occur here, made of the characters \<open>0\<close>, \<open>1\<close> and
  \<open>b\<close>: the value of the binary digits, \<open>ValueError\<close> for anything else.
\<close>

definition int_base2 :: "string \<Rightarrow> error + nat" where
  "int_base2 s =
     (if s = [] \<or> \<not> list_all (\<lambda>c. c = CHR ''0'' \<or> c = CHR ''1'') s then Inl ValueError
      else Inr (foldl (\<lambda>a c. 2 * a + (if c = CHR ''1'' then 1 else 0)) 0 s))"

text \<open>\<open>list.remove(v)\<close>: drops the first occurrence, \<open>ValueError\<close> when there is none.\<close>

definition list_remove :: "nat \<Rightarrow> nat list \<Rightarrow> error + nat list" where
  "list_remove v xs = (if v \<in> set xs then Inr (remove1 v xs) else Inl ValueError)"

text \<open>\<open>rotation_matrix[row][col] = -1 if flag == '1' else 1\<close>.\<close>

definition set_entry :: "nat \<Rightarrow> nat \<Rightarrow> char \<Rightarrow> int list list \<Rightarrow> int list list" where
  "set_entry row col flag m =
     m[row := (m ! row)[col := (if flag = CHR ''1'' then - 1 else 1)]]"

text \<open>
  \<open>parse_rotation_matrix\<close> on the value of \<open>int(byte)\<close>. The slices \<open>[-2:]\<close> and
  \<open>[-4:-2]\<close> and the indices \<open>[-5]\<close>, \<open>[-6]\<close>, \<open>[-7]\<close> are in range because \<open>zfill(8)\<close>
  makes the string at least 8 long; after the two removals \<open>open_rows\<close> has one element.
\<close>

definition parse_rotation_matrix :: "int \<Rightarrow> error + int list list" where
  "parse_rotation_matrix byte =
     (let rotation_matrix = [[0, 0, 0], [0, 0, 0], [0, 0, 0]];
          open_rows = [0, 1, 2];
          byte_string = zfill 8 (drop 2 (bin byte));
          len = length byte_string
      in case int_base2 (drop (len - 2) byte_string) of
           Inl e \<Rightarrow> Inl e
         | Inr first_row_coord \<Rightarrow>
        (case int_base2 (drop (len - 4) (take (len - 2) byte_string)) of
           Inl e \<Rightarrow> Inl e
         | Inr second_row_coord \<Rightarrow>
        (case list_remove first_row_coord open_rows of
           Inl e \<Rightarrow> Inl e
         | Inr open_rows1 \<Rightarrow>
        (case list_remove second_row_coord open_rows1 of
           Inl e \<Rightarrow> Inl e
         | Inr open_rows2 \<Rightarrow>
             (let third_row_coord = hd open_rows2;
                  m1 = set_entry 0 first_row_coord (byte_string ! (len - 5)) rotation_matrix;
                  m2 = set_entry 1 second_row_coord (byte_string ! (len - 6)) m1;
                  m3 = set_entry 2 third_row_coord (byte_string ! (len - 7)) m2
              in Inr m3)))))"

text \<open>
  \<open>math.atan2\<close> over the reals (signed zeros and rounding are not modelled; the
  arguments that occur below are \<open>0\<close>, \<open>1\<close> and \<open>-1\<close>).
\<close>

definition atan2 :: "real \<Rightarrow> real \<Rightarrow> real" where
  "atan2 y x =
     (if 0 < x then arctan (y / x)
      else if x < 0 \<and> 0 \<le> y then arctan (y / x) + pi
      else if x < 0 then arctan (y / x) - pi
      else if 0 < y then pi / 2
      else if y < 0 then - pi / 2
      else 0)"

text \<open>\<open>rotation_to_euler\<close>; indexing a matrix that is too small raises \<open>IndexError\<close>.\<close>

definition rotation_to_euler :: "int list list \<Rightarrow> error + real \<times> real \<times> real" where
  "rotation_to_euler matrix =
     (if length matrix < 3 \<or> length (matrix ! 2) < 3
         \<or> length (matrix ! 1) < 1 \<or> length (matrix ! 0) < 1 then Inl IndexError
      else
        (let x = atan2 (real_of_int (matrix ! 2 ! 1)) (real_of_int (matrix ! 2 ! 2));
             y = atan2 (real_of_int (- 1 * (matrix ! 2 ! 0)))
                       (sqrt (real_of_int ((matrix ! 2 ! 1) ^ 2 + (matrix ! 2 ! 2) ^ 2)));
             z = atan2 (real_of_int (matrix ! 1 ! 0)) (real_of_int (matrix ! 0 ! 0))
         in Inr (x, y, z)))"

section \<open>The chunk reader\<close>

text \<open>Sequencing of steps that may raise: the first error ends the computation.\<close>

definition bindE :: "error + 'a \<Rightarrow> ('a \<Rightarrow> error + 'b) \<Rightarrow> error + 'b" where
  "bindE m f = (case m of Inl e \<Rightarrow> Inl e | Inr v \<Rightarrow> f v)"

text \<open>A bytes literal such as \<open>b'SIZE'\<close>.\<close>

definition ascii :: "string \<Rightarrow> bytes" where
  "ascii s = map of_char s"

text \<open>Four bytes as a little-endian signed 32-bit integer (\<open>struct\<close> format \<open><i\<close>).\<close>

definition le_i32 :: "bytes \<Rightarrow> int" where
  "le_i32 b =
     (let u = uint (b ! 0) + 256 * uint (b ! 1) + 65536 * uint (b ! 2)
                + 16777216 * uint (b ! 3)
      in if u \<ge> 2147483648 then u - 4294967296 else u)"

text \<open>
  \<open>file.read(n)\<close> on a buffered binary file, the stream given by the bytes not yet read:
  at most \<open>n\<close> bytes, everything for \<open>n = -1\<close>, \<open>ValueError\<close> below that.
\<close>

definition file_read :: "bytes \<Rightarrow> int \<Rightarrow> error + bytes \<times> bytes" where
  "file_read file n =
     (if n < - 1 then Inl ValueError
      else if n = - 1 then Inr (file, [])
      else Inr (take (nat n) file, drop (nat n) file))"

text \<open>
  \<open>read_chunk\<close>: \<open>struct.unpack('<4cii', buffer.read(12))\<close> needs exactly 12 bytes;
  the content is whatever \<open>buffer.read(h_size)\<close> returns. The result is the pair
  \<open>(name, content)\<close> together with the rest of the stream.
\<close>

definition read_chunk :: "bytes \<Rightarrow> error + (bytes \<times> bytes) \<times> bytes" where
  "read_chunk buffer =
     bindE (file_read buffer 12) (\<lambda>(header, buffer1).
       if length header \<noteq> 12 then Inl StructError
       else
         (let name = take 4 header;
              h_size = le_i32 (take 4 (drop 4 header));
              h_children = le_i32 (drop 8 header)
          in bindE (file_read buffer1 h_size) (\<lambda>(content, buffer2).
               Inr ((name, content), buffer2))))"

text \<open>
  \<open>read_content\<close>: \<open>out = content[:size]; del content[:size]\<close>, with Python's slice
  rule for a negative \<open>size\<close>. Returns \<open>out\<close> and what is left of \<open>content\<close>.
\<close>

definition read_content :: "bytes \<Rightarrow> int \<Rightarrow> bytes \<times> bytes" where
  "read_content content sz =
     (let n = (if sz < 0 then nat (int (length content) + sz) else nat sz)
      in (take n content, drop n content))"

text \<open>\<open>struct.unpack('<i', read_content(content, 4))\<close>.\<close>

definition read_int :: "bytes \<Rightarrow> error + int \<times> bytes" where
  "read_int content =
     (let (out, content1) = read_content content 4
      in if length out \<noteq> 4 then Inl StructError else Inr (le_i32 out, content1))"

text \<open>\<open>struct.unpack('<4B', read_content(content, 4))\<close>.\<close>

definition read_4B :: "bytes \<Rightarrow> error + (int \<times> int \<times> int \<times> int) \<times> bytes" where
  "read_4B content =
     (let (out, content1) = read_content content 4
      in if length out \<noteq> 4 then Inl StructError
         else Inr ((uint (out ! 0), uint (out ! 1), uint (out ! 2), uint (out ! 3)), content1))"

text \<open>
  \<open>struct.unpack('<' + str(n) + 'c', read_content(content, n))\<close> joined again: a negative
  \<open>n\<close> gives a bad format string, too few bytes a size mismatch.
\<close>

definition read_chars :: "bytes \<Rightarrow> int \<Rightarrow> error + bytes \<times> bytes" where
  "read_chars content n =
     (let (out, content1) = read_content content n
      in if n < 0 \<or> int (length out) \<noteq> n then Inl StructError else Inr (out, content1))"

text \<open>\<open>read_dict\<close>; the dictionary keeps insertion order, it is iterated later.\<close>

type_synonym pydict = "(bytes \<times> bytes) list"

fun read_dict_entries :: "nat \<Rightarrow> bytes \<Rightarrow> pydict \<Rightarrow> error + pydict \<times> bytes" where
  "read_dict_entries 0 content d = Inr (d, content)"
| "read_dict_entries (Suc n) content d =
     bindE (read_int content) (\<lambda>(key_bytes, c1).
     bindE (read_chars c1 key_bytes) (\<lambda>(key, c2).
     bindE (read_int c2) (\<lambda>(value_bytes, c3).
     bindE (read_chars c3 value_bytes) (\<lambda>(val, c4).
       read_dict_entries n c4 (AList.update key val d)))))"

definition read_dict :: "bytes \<Rightarrow> error + pydict \<times> bytes" where
  "read_dict content =
     bindE (read_int content) (\<lambda>(dict_size, c1). read_dict_entries (nat dict_size) c1 [])"

section \<open>The file-level driver: the \<open>with open\<close> block of \<open>import_vox\<close>\<close>

text \<open>
  Conversions done by Python built-ins are parameters of the model: \<open>int\<close> of a bytes
  object, \<open>int\<close> of a string, \<open>float\<close> of a bytes object, and
  \<open>decode('utf-8').split()\<close>. \<open>None\<close> stands for the exception the built-in raises.
\<close>

record builtins =
  int_of_bytes :: "bytes \<Rightarrow> int option"
  int_of_str :: "string \<Rightarrow> int option"
  float_of_bytes :: "bytes \<Rightarrow> real option"
  decode_split :: "bytes \<Rightarrow> string list option"

text \<open>
  The local variables of \<open>import_vox\<close> that the chunk handlers read and write.
  \<open>st_size\<close> is \<open>None\<close> until the first \<open>SIZE\<close> chunk binds \<open>size\<close>.
\<close>

record parse_state =
  st_models :: model_table
  st_mod_id :: int
  st_size :: "int Vec3 option"
  st_transforms :: transform_nodes
  st_groups :: group_nodes
  st_shapes :: shape_nodes
  st_palette :: "real list list"
  st_materials :: "real list list"

definition initial_state :: parse_state where
  "initial_state =
     \<lparr> st_models = Map.empty, st_mod_id = 0, st_size = None,
       st_transforms = Map.empty, st_groups = Map.empty, st_shapes = Map.empty,
       st_palette = [],
       st_materials = replicate 255 [0.5, 0.0, 0.0, 0.0, 0.0, 0.0] \<rparr>"

subsection \<open>\<open>SIZE\<close> and \<open>XYZI\<close>\<close>

definition handle_SIZE :: "bytes \<Rightarrow> parse_state \<Rightarrow> error + parse_state" where
  "handle_SIZE content st =
     (let (out, content1) = read_content content 12
      in if length out \<noteq> 12 then Inl StructError
         else Inr (st\<lparr>st_size := Some (Vec3 (le_i32 (take 4 out))
                                           (le_i32 (take 4 (drop 4 out)))
                                           (le_i32 (drop 8 out)))\<rparr>))"

fun read_voxels :: "nat \<Rightarrow> bytes \<Rightarrow> voxel list \<Rightarrow> error + voxel list \<times> bytes" where
  "read_voxels 0 content vlist = Inr (vlist, content)"
| "read_voxels (Suc n) content vlist =
     bindE (read_4B content) (\<lambda>(voxel_data, c1). read_voxels n c1 (vlist @ [voxel_data]))"

definition handle_XYZI :: "bytes \<Rightarrow> parse_state \<Rightarrow> error + parse_state" where
  "handle_XYZI content st =
     bindE (read_int content) (\<lambda>(num_voxels, c1).
     bindE (read_voxels (nat num_voxels) c1 []) (\<lambda>(vlist, c2).
       case st_size st of
         None \<Rightarrow> Inl UnboundLocalError
       | Some sz \<Rightarrow>
           Inr (st\<lparr>st_models := (st_models st)(st_mod_id st \<mapsto> VoxelObject_init vlist sz),
                   st_mod_id := st_mod_id st + 1\<rparr>)))"

subsection \<open>\<open>nTRN\<close>, \<open>nGRP\<close>, \<open>nSHP\<close>\<close>

text \<open>\<open>for key in frames\<close>: the running value is \<open>transforms[id][1]\<close> and \<open>transforms[id][2]\<close>.\<close>

fun apply_frames ::
  "builtins \<Rightarrow> pydict \<Rightarrow> int Vec3 \<times> real list \<Rightarrow> error + int Vec3 \<times> real list" where
  "apply_frames bi [] node = Inr node"
| "apply_frames bi ((key, val) # rest) (loc, rot) =
     (if key = ascii ''_r'' then
        (case int_of_bytes bi val of
           None \<Rightarrow> Inl ValueError
         | Some byte \<Rightarrow>
             bindE (parse_rotation_matrix byte) (\<lambda>matrix.
             bindE (rotation_to_euler matrix) (\<lambda>(ex, ey, ez).
               apply_frames bi rest (loc, [ex, ey, ez]))))
      else if key = ascii ''_t'' then
        (case decode_split bi val of
           None \<Rightarrow> Inl UnicodeDecodeError
         | Some [] \<Rightarrow> Inl IndexError
         | Some (v0 # r0) \<Rightarrow>
             (case int_of_str bi v0 of
                None \<Rightarrow> Inl ValueError
              | Some tx \<Rightarrow>
                  (case r0 of
                     [] \<Rightarrow> Inl IndexError
                   | v1 # r1 \<Rightarrow>
                       (case int_of_str bi v1 of
                          None \<Rightarrow> Inl ValueError
                        | Some ty \<Rightarrow>
                            (case r1 of
                               [] \<Rightarrow> Inl IndexError
                             | v2 # r2 \<Rightarrow>
                                 (case int_of_str bi v2 of
                                    None \<Rightarrow> Inl ValueError
                                  | Some tz \<Rightarrow>
                                      apply_frames bi rest (Vec3 tx ty tz, rot)))))))
      else apply_frames bi rest (loc, rot))"

definition handle_nTRN :: "builtins \<Rightarrow> bytes \<Rightarrow> parse_state \<Rightarrow> error + parse_state" where
  "handle_nTRN bi content st =
     bindE (read_int content) (\<lambda>(node_id, c1).
     bindE (read_dict c1) (\<lambda>(attrs, c2).
       (let (out, c3) = read_content c2 16
        in if length out \<noteq> 16 then Inl StructError
           else
             (let child_id = le_i32 (take 4 out)
              in bindE (read_dict c3) (\<lambda>(frames, c4).
                 bindE (apply_frames bi frames (Vec3 0 0 0, [0, 0, 0])) (\<lambda>(loc, rot).
                   Inr (st\<lparr>st_transforms :=
                             (st_transforms st)(node_id \<mapsto> (child_id, loc, rot))\<rparr>)))))))"

fun read_ids :: "nat \<Rightarrow> bytes \<Rightarrow> int list \<Rightarrow> error + int list \<times> bytes" where
  "read_ids 0 content ids = Inr (ids, content)"
| "read_ids (Suc n) content ids =
     bindE (read_int content) (\<lambda>(i, c1). read_ids n c1 (ids @ [i]))"

definition handle_nGRP :: "bytes \<Rightarrow> parse_state \<Rightarrow> error + parse_state" where
  "handle_nGRP content st =
     bindE (read_int content) (\<lambda>(node_id, c1).
     bindE (read_dict c1) (\<lambda>(attrs, c2).
     bindE (read_int c2) (\<lambda>(num_child, c3).
     bindE (read_ids (nat num_child) c3 []) (\<lambda>(children, c4).
       Inr (st\<lparr>st_groups := (st_groups st)(node_id \<mapsto> children)\<rparr>)))))"

fun read_model_ids :: "nat \<Rightarrow> bytes \<Rightarrow> int list \<Rightarrow> error + int list \<times> bytes" where
  "read_model_ids 0 content ids = Inr (ids, content)"
| "read_model_ids (Suc n) content ids =
     bindE (read_int content) (\<lambda>(i, c1).
     bindE (read_dict c1) (\<lambda>(attrs, c2). read_model_ids n c2 (ids @ [i])))"

definition handle_nSHP :: "bytes \<Rightarrow> parse_state \<Rightarrow> error + parse_state" where
  "handle_nSHP content st =
     bindE (read_int content) (\<lambda>(node_id, c1).
     bindE (read_dict c1) (\<lambda>(attrs, c2).
     bindE (read_int c2) (\<lambda>(num_models, c3).
     bindE (read_model_ids (nat num_models) c3 []) (\<lambda>(model_ids, c4).
       Inr (st\<lparr>st_shapes := (st_shapes st)(node_id \<mapsto> model_ids)\<rparr>)))))"

subsection \<open>\<open>RGBA\<close> and \<open>MATL\<close>\<close>

fun read_colors :: "nat \<Rightarrow> bytes \<Rightarrow> real list list \<Rightarrow> error + real list list \<times> bytes" where
  "read_colors 0 content pal = Inr (pal, content)"
| "read_colors (Suc n) content pal =
     bindE (read_4B content) (\<lambda>((r, g, b, a), c1).
       read_colors n c1
         (pal @ [[real_of_int r / 255, real_of_int g / 255,
                  real_of_int b / 255, real_of_int a / 255]]))"

definition handle_RGBA :: "bytes \<Rightarrow> parse_state \<Rightarrow> error + parse_state" where
  "handle_RGBA content st =
     bindE (read_colors 255 content (st_palette st)) (\<lambda>(pal, c1).
       Inr (st\<lparr>st_palette := pal\<rparr>))"

text \<open>A list index as Python resolves it: negative indices count from the end.\<close>

definition py_index :: "nat \<Rightarrow> int \<Rightarrow> error + nat" where
  "py_index len i =
     (if 0 \<le> i \<and> i < int len then Inr (nat i)
      else if - int len \<le> i \<and> i < 0 then Inr (nat (int len + i))
      else Inl IndexError)"

text \<open>\<open>materials[i][k] = v\<close> for a resolved row \<open>i\<close>; every row has six entries.\<close>

definition set_material :: "real list list \<Rightarrow> nat \<Rightarrow> nat \<Rightarrow> real \<Rightarrow> real list list" where
  "set_material mats i k v = mats[i := (mats ! i)[k := v]]"

text \<open>
  \<open>for key in mat_dict\<close>, with the running \<open>mat_type\<close>. Each round first evaluates
  \<open>materials[id - 1]\<close>. Keys without effect (\<open>_d\<close>, \<open>_ior\<close>, unknown ones) change nothing.
\<close>

fun apply_matl ::
  "builtins \<Rightarrow> int \<Rightarrow> pydict \<Rightarrow> bytes \<Rightarrow> real list list \<Rightarrow> error + real list list" where
  "apply_matl bi mat_id [] mat_type mats = Inr mats"
| "apply_matl bi mat_id ((key, val) # rest) mat_type mats =
     bindE (py_index (length mats) (mat_id - 1)) (\<lambda>i.
       (let mat_type1 = (if key = ascii ''_type'' then val else mat_type)
        in if key = ascii ''_rough'' then
             (case float_of_bytes bi val of
                None \<Rightarrow> Inl ValueError
              | Some f \<Rightarrow> apply_matl bi mat_id rest mat_type1 (set_material mats i 0 f))
           else if key = ascii ''_metal'' then
             (if mat_type1 = ascii ''_metal'' then
                (case float_of_bytes bi val of
                   None \<Rightarrow> Inl ValueError
                 | Some f \<Rightarrow> apply_matl bi mat_id rest mat_type1 (set_material mats i 1 f))
              else apply_matl bi mat_id rest mat_type1 mats)
           else if key = ascii ''_alpha'' \<and> mat_type1 = ascii ''_glass'' then
             (case float_of_bytes bi val of
                None \<Rightarrow> Inl ValueError
              | Some f \<Rightarrow> apply_matl bi mat_id rest mat_type1 (set_material mats i 2 f))
           else if key = ascii ''_emit'' \<and> mat_type1 = ascii ''_emit'' then
             (case float_of_bytes bi val of
                None \<Rightarrow> Inl ValueError
              | Some f \<Rightarrow>
                  apply_matl bi mat_id rest mat_type1
                    (set_material (set_material mats i 3 f) i 5 1.0))
           else if key = ascii ''_flux'' then
             (case float_of_bytes bi val of
                None \<Rightarrow> Inl ValueError
              | Some f \<Rightarrow> apply_matl bi mat_id rest mat_type1 (set_material mats i 5 f))
           else if key = ascii ''_sp'' then
             (case float_of_bytes bi val of
                None \<Rightarrow> Inl ValueError
              | Some f \<Rightarrow> apply_matl bi mat_id rest mat_type1 (set_material mats i 4 (f - 1)))
           else apply_matl bi mat_id rest mat_type1 mats))"

text \<open>\<open>if id > 255: continue\<close> is the only test on the material id.\<close>

definition handle_MATL :: "builtins \<Rightarrow> bytes \<Rightarrow> parse_state \<Rightarrow> error + parse_state" where
  "handle_MATL bi content st =
     bindE (read_int content) (\<lambda>(mat_id, c1).
       if mat_id > 255 then Inr st
       else
         bindE (read_dict c1) (\<lambda>(mat_dict, c2).
         bindE (apply_matl bi mat_id mat_dict (ascii ''_diffuse'') (st_materials st)) (\<lambda>mats.
           Inr (st\<lparr>st_materials := mats\<rparr>))))"

subsection \<open>The chunk loop\<close>

definition handle_chunk ::
  "builtins \<Rightarrow> bytes \<Rightarrow> bytes \<Rightarrow> parse_state \<Rightarrow> error + parse_state" where
  "handle_chunk bi name content st =
     (if name = ascii ''SIZE'' then handle_SIZE content st
      else if name = ascii ''XYZI'' then handle_XYZI content st
      else if name = ascii ''nTRN'' then handle_nTRN bi content st
      else if name = ascii ''nGRP'' then handle_nGRP content st
      else if name = ascii ''nSHP'' then handle_nSHP content st
      else if name = ascii ''RGBA'' then handle_RGBA content st
      else if name = ascii ''MATL'' then handle_MATL bi content st
      else Inr st)"

text \<open>
  \<open>while file.tell() < file_size\<close>: the loop runs while unread bytes remain. Every round
  reads a 12-byte header or fails, so the loop ends.
\<close>

function parse_chunks :: "builtins \<Rightarrow> bytes \<Rightarrow> parse_state \<Rightarrow> error + parse_state" where
  "parse_chunks bi file st =
     (if file = [] then Inr st
      else
        (case read_chunk file of
           Inl e \<Rightarrow> Inl e
         | Inr ((name, content), file1) \<Rightarrow>
             (case handle_chunk bi name content st of
                Inl e \<Rightarrow> Inl e
              | Inr st1 \<Rightarrow> parse_chunks bi file1 st1)))"
  by pat_completeness auto
termination
  by (relation "measure (\<lambda>(bi, buf, st). length buf)")
     (auto simp: read_chunk_def file_read_def bindE_def Let_def
           split: if_splits sum.splits prod.splits)

declare parse_chunks.simps [simp del]

text \<open>
  The header checks: \<open>VOX \<close> and version 150, the tag \<open>MAIN\<close>, and \<open>N == 0\<close>; a short
  read makes \<open>struct.unpack\<close> fail, a wrong value fails the \<open>assert\<close>.
\<close>

definition import_vox_parse :: "builtins \<Rightarrow> bytes \<Rightarrow> error + parse_state" where
  "import_vox_parse bi file =
     bindE (file_read file 8) (\<lambda>(magic, file1).
       if length magic \<noteq> 8 then Inl StructError
       else if \<not> (take 4 magic = ascii ''VOX '' \<and> le_i32 (drop 4 magic) = 150)
         then Inl AssertionError
       else
         bindE (file_read file1 4) (\<lambda>(main, file2).
           if length main \<noteq> 4 then Inl StructError
           else if main \<noteq> ascii ''MAIN'' then Inl AssertionError
           else
             bindE (file_read file2 8) (\<lambda>(nm, file3).
               if length nm \<noteq> 8 then Inl StructError
               else if le_i32 (take 4 nm) \<noteq> 0 then Inl AssertionError
               else parse_chunks bi file3 initial_state)))"

section \<open>Inputs and properties named by the specification\<close>

text \<open>
  The six face windings listed in the specification, as offsets from the minimum corner
  of a voxel, in the order \<open>+X\<close>, \<open>+Y\<close>, \<open>+Z\<close>, \<open>-X\<close>, \<open>-Y\<close>, \<open>-Z\<close>.
\<close>

definition face_px :: "vert list" where
  "face_px = [(1, 0, 0), (1, 1, 0), (1, 1, 1), (1, 0, 1)]"

definition face_py :: "vert list" where
  "face_py = [(1, 1, 0), (1, 1, 1), (0, 1, 1), (0, 1, 0)]"

definition face_pz :: "vert list" where
  "face_pz = [(0, 0, 1), (0, 1, 1), (1, 1, 1), (1, 0, 1)]"

definition face_nx :: "vert list" where
  "face_nx = [(0, 0, 0), (0, 1, 0), (0, 1, 1), (0, 0, 1)]"

definition face_ny :: "vert list" where
  "face_ny = [(0, 0, 0), (0, 0, 1), (1, 0, 1), (1, 0, 0)]"

definition face_nz :: "vert list" where
  "face_nz = [(0, 0, 0), (1, 0, 0), (1, 1, 0), (0, 1, 0)]"

definition spec_face_offsets :: "vert list list" where
  "spec_face_offsets = [face_px, face_py, face_pz, face_nx, face_ny, face_nz]"

text \<open>The listed offsets placed at the voxel with minimum corner \<open>(x, y, z)\<close>.\<close>

definition place_face :: "int \<Rightarrow> int \<Rightarrow> int \<Rightarrow> vert list \<Rightarrow> vert list" where
  "place_face x y z f = map (\<lambda>(dx, dy, dz). (x + dx, y + dy, z + dz)) f"

definition offset_quads :: "int \<Rightarrow> int \<Rightarrow> int \<Rightarrow> vert list list \<Rightarrow> vert list list" where
  "offset_quads x y z qs = map (place_face x y z) qs"

text \<open>What a mesh batch amounts to: its colour, its vertex count and its quads.\<close>

definition batch_summary :: "int \<times> mesh \<Rightarrow> int \<times> nat \<times> vert list list" where
  "batch_summary b = (fst b, length (fst (snd b)), quads (snd b))"

text \<open>\<open>struct.pack('<i', n)\<close>, used to write test files down.\<close>

definition pack_i :: "int \<Rightarrow> bytes" where
  "pack_i n = [word_of_int n, word_of_int (n div 256), word_of_int (n div 65536),
               word_of_int (n div 16777216)]"

text \<open>
  The minimal file of the round-trip test: header, \<open>MAIN\<close>, one \<open>SIZE\<close> chunk
  \<open>(2, 2, 2)\<close> and one \<open>XYZI\<close> chunk with the eight voxels of the cube in colour 1.
\<close>

definition cube_voxels :: "voxel list" where
  "cube_voxels =
     [(0, 0, 0, 1), (1, 0, 0, 1), (0, 1, 0, 1), (1, 1, 0, 1),
      (0, 0, 1, 1), (1, 0, 1, 1), (0, 1, 1, 1), (1, 1, 1, 1)]"

definition size_chunk :: bytes where
  "size_chunk = ascii ''SIZE'' @ pack_i 12 @ pack_i 0 @ pack_i 2 @ pack_i 2 @ pack_i 2"

definition xyzi_chunk :: bytes where
  "xyzi_chunk =
     ascii ''XYZI'' @ pack_i 36 @ pack_i 0 @ pack_i 8
     @ concat (map (\<lambda>(x, y, z, c). [word_of_int x, word_of_int y, word_of_int z, word_of_int c])
                   cube_voxels)"

definition minimal_vox :: bytes where
  "minimal_vox =
     ascii ''VOX '' @ pack_i 150 @ ascii ''MAIN'' @ pack_i 0 @ pack_i 72
     @ size_chunk @ xyzi_chunk"

text \<open>Built-ins that reject every argument; the files used below never call them.\<close>

definition failing_builtins :: builtins where
  "failing_builtins =
     \<lparr> int_of_bytes = (\<lambda>b. None), int_of_str = (\<lambda>s. None),
       float_of_bytes = (\<lambda>b. None), decode_split = (\<lambda>b. None) \<rparr>"

text \<open>
  The colours of a voxel list in first-seen order without repetition, and the dictionary
  entry that one listed voxel writes.
\<close>

fun first_seen :: "int list \<Rightarrow> int list" where
  "first_seen [] = []"
| "first_seen (c # cs) = c # removeAll c (first_seen cs)"

definition voxel_color :: "voxel \<Rightarrow> int" where
  "voxel_color v = (case v of (x, y, z, c) \<Rightarrow> c)"

definition voxel_entry :: "voxel \<Rightarrow> int \<times> (int Vec3 \<times> int)" where
  "voxel_entry v = (case v of (x, y, z, c) \<Rightarrow> (Vec3_index (Vec3 x y z), (Vec3 x y z, c)))"

text \<open>
  A chain of transform nodes: starting at node \<open>i\<close>, the nodes met carry the listed
  translations and rotations, each pointing to the next, the last one to node \<open>j\<close>.
\<close>

fun transform_chain ::
  "transform_nodes \<Rightarrow> int \<Rightarrow> (int Vec3 \<times> real list) list \<Rightarrow> int \<Rightarrow> bool" where
  "transform_chain T i [] j = (i = j)"
| "transform_chain T i ((t, r) # rest) j =
     (case T i of
        None \<Rightarrow> False
      | Some (c, t', r') \<Rightarrow> t' = t \<and> r' = r \<and> transform_chain T c rest j)"

text \<open>
  The component-wise sum of translations, which are integers, and the rotation that
  results from adding Euler rotations one after the other, component by component, to
  \<open>[0, 0, 0]\<close>: each step is \<open>(0 + r) + current\<close> in the addition \<open>fadd\<close>, in the
  order of the list, since a rounding addition need not be associative.
\<close>

definition sum_locations :: "int Vec3 list \<Rightarrow> int Vec3" where
  "sum_locations ts =
     Vec3 (sum_list (map vx ts)) (sum_list (map vy ts)) (sum_list (map vz ts))"

definition rotation_step ::
  "(real \<Rightarrow> real \<Rightarrow> real) \<Rightarrow> real list \<Rightarrow> real list \<Rightarrow> real list" where
  "rotation_step fadd current r =
     [fadd (fadd 0 (r ! 0)) (current ! 0), fadd (fadd 0 (r ! 1)) (current ! 1),
      fadd (fadd 0 (r ! 2)) (current ! 2)]"

definition chain_rotation :: "(real \<Rightarrow> real \<Rightarrow> real) \<Rightarrow> real list list \<Rightarrow> real list" where
  "chain_rotation fadd rs = foldl (rotation_step fadd) [0, 0, 0] rs"

definition rotation_vec :: "real list \<Rightarrow> real Vec3" where
  "rotation_vec r = Vec3 (r ! 0) (r ! 1) (r ! 2)"

text \<open>A model instance: the copy of a model with its resolved position and rotation.\<close>

definition stamp :: "int Vec3 \<Rightarrow> real Vec3 \<Rightarrow> VoxelObject \<Rightarrow> VoxelObject" where
  "stamp loc rot model = model\<lparr>rotation := rot, position := loc\<rparr>"

text \<open>A one-voxel model used in examples.\<close>

definition unit_model :: VoxelObject where
  "unit_model = VoxelObject_init [(0, 0, 0, 1)] (Vec3 1 1 1)"

text \<open>
  The rotation byte in the specification's terms: the row with its single entry \<open>sg\<close> in
  column \<open>col\<close>, the sign selected by bit \<open>k\<close> of the byte, and the property of being a
  3 by 3 matrix with exactly one entry \<open>1\<close> or \<open>-1\<close> in every row and every column, all
  other entries 0.
\<close>

definition unit_row :: "nat \<Rightarrow> int \<Rightarrow> int list" where
  "unit_row col sg = [0, 0, 0][col := sg]"

definition sign_bit :: "nat \<Rightarrow> nat \<Rightarrow> int" where
  "sign_bit b k = (if b div 2 ^ k mod 2 = 1 then - 1 else 1)"

definition one_nonzero :: "int list \<Rightarrow> bool" where
  "one_nonzero r =
     (length r = 3 \<and> length (filter (\<lambda>v. v = 1 \<or> v = - 1) r) = 1
      \<and> length (filter (\<lambda>v. v = 0) r) = 2)"

definition signed_permutation :: "int list list \<Rightarrow> bool" where
  "signed_permutation m =
     (length m = 3 \<and> list_all one_nonzero m
      \<and> list_all (\<lambda>j. one_nonzero (map (\<lambda>r. r ! j) m)) [0, 1, 2])"

text \<open>The character of one binary digit, and the sign a flag character selects.\<close>

definition bit_char :: "nat \<Rightarrow> char" where
  "bit_char d = (if d = 1 then CHR ''1'' else CHR ''0'')"

definition flag_sign :: "char \<Rightarrow> int" where
  "flag_sign c = (if c = CHR ''1'' then - 1 else 1)"

text \<open>
  A file whose only chunk is a \<open>MATL\<close> record for material id 0 with the one property
  \<open>_rough = 0.1\<close>, and built-ins whose \<open>float\<close> reads just that text.
\<close>

definition matl_content :: bytes where
  "matl_content =
     pack_i 0 @ pack_i 1 @ pack_i 6 @ ascii ''_rough'' @ pack_i 3 @ ascii ''0.1''"

definition matl_file :: bytes where
  "matl_file =
     ascii ''VOX '' @ pack_i 150 @ ascii ''MAIN'' @ pack_i 0 @ pack_i 37
     @ ascii ''MATL'' @ pack_i 25 @ pack_i 0 @ matl_content"

definition rough_builtins :: builtins where
  "rough_builtins =
     failing_builtins\<lparr>float_of_bytes := (\<lambda>b. if b = ascii ''0.1'' then Some (1 / 10) else None)\<rparr>"

section \<open>Voxel grid and mesh extraction: proofs\<close>

lemma Vec3_index_Vec3: "Vec3_index (Vec3 a b c) = a + b * 256 + c * 65536"
  by (simp add: Vec3_index_def)

lemmas face_defs =
  face_px_def face_py_def face_pz_def face_nx_def face_ny_def face_nz_def
  place_face_def offset_quads_def

lemmas mesh_defs =
  generate_def VoxelObject_init_def voxel_faces_def compareVox_def getVox_def
  add_face_def Vec3_index_Vec3 Let_def batch_summary_def quads_def

text \<open>
  Claim C3. A grid built from a single voxel \<open>(x, y, z, c)\<close> yields one batch, for colour
  \<open>c\<close>, with 24 vertices and exactly 6 quads; the quads are the six windings listed in the
  specification, placed at \<open>(x, y, z)\<close>, in the order \<open>+X\<close>, \<open>+Y\<close>, \<open>+Z\<close>, \<open>-X\<close>, \<open>-Y\<close>,
  \<open>-Z\<close> (so the \<open>+X\<close> quad is \<open>(x+1,y,z), (x+1,y+1,z), (x+1,y+1,z+1), (x+1,y,z+1)\<close>).
\<close>

theorem single_voxel_six_quads:
  "map_option (map batch_summary) (generate (VoxelObject_init [(x, y, z, c)] sz)) =
     Some [(c, 24, offset_quads x y z spec_face_offsets)]
   \<and> length (offset_quads x y z spec_face_offsets) = 6
   \<and> hd (offset_quads x y z spec_face_offsets) =
       [(x + 1, y, z), (x + 1, y + 1, z), (x + 1, y + 1, z + 1), (x + 1, y, z + 1)]"
  by (simp add: mesh_defs spec_face_offsets_def face_defs)

text \<open>
  Claim C2. A grid built from two voxels of one colour \<open>c \<noteq> 0\<close> at \<open>(x, y, z)\<close> and
  \<open>(x + 1, y, z)\<close>, listed in either order, yields one batch with 40 vertices and exactly
  10 quads: each voxel contributes its five outer faces as unit quads, and the face
  between them (the \<open>+X\<close> face of the first, which is the \<open>-X\<close> face of the second) is
  emitted for neither voxel.
\<close>

theorem two_adjacent_voxels_ten_quads:
  assumes "c \<noteq> 0"
  shows
    "map_option (map batch_summary)
       (generate (VoxelObject_init [(x, y, z, c), (x + 1, y, z, c)] sz)) =
     Some [(c, 40,
            offset_quads x y z [face_py, face_pz, face_nx, face_ny, face_nz]
            @ offset_quads (x + 1) y z [face_px, face_py, face_pz, face_ny, face_nz])]
     \<and> map_option (map batch_summary)
       (generate (VoxelObject_init [(x + 1, y, z, c), (x, y, z, c)] sz)) =
     Some [(c, 40,
            offset_quads (x + 1) y z [face_px, face_py, face_pz, face_ny, face_nz]
            @ offset_quads x y z [face_py, face_pz, face_nx, face_ny, face_nz])]
     \<and> length (offset_quads x y z [face_py, face_pz, face_nx, face_ny, face_nz]
               @ offset_quads (x + 1) y z [face_px, face_py, face_pz, face_ny, face_nz]) = 10
     \<and> place_face x y z face_px = place_face (x + 1) y z face_nx
     \<and> place_face x y z face_px \<notin>
         set (offset_quads x y z [face_py, face_pz, face_nx, face_ny, face_nz]
              @ offset_quads (x + 1) y z [face_px, face_py, face_pz, face_ny, face_nz])"
  using assms by (simp add: mesh_defs face_defs)

theorem two_adjacent_voxels_ten_quads_witness:
  "(1::int) \<noteq> 0
   \<and> map_option (map batch_summary)
       (generate (VoxelObject_init [(0, 0, 0, 1), (1, 0, 0, 1)] (Vec3 2 1 1))) =
     Some [(1, 40,
        [[(1, 1, 0), (1, 1, 1), (0, 1, 1), (0, 1, 0)],
         [(0, 0, 1), (0, 1, 1), (1, 1, 1), (1, 0, 1)],
         [(0, 0, 0), (0, 1, 0), (0, 1, 1), (0, 0, 1)],
         [(0, 0, 0), (0, 0, 1), (1, 0, 1), (1, 0, 0)],
         [(0, 0, 0), (1, 0, 0), (1, 1, 0), (0, 1, 0)],
         [(2, 0, 0), (2, 1, 0), (2, 1, 1), (2, 0, 1)],
         [(2, 1, 0), (2, 1, 1), (1, 1, 1), (1, 1, 0)],
         [(1, 0, 1), (1, 1, 1), (2, 1, 1), (2, 0, 1)],
         [(1, 0, 0), (1, 0, 1), (2, 0, 1), (2, 0, 0)],
         [(1, 0, 0), (2, 0, 0), (2, 1, 0), (1, 1, 0)]])]"
  using two_adjacent_voxels_ten_quads [of 1 0 0 0 "Vec3 2 1 1"]
  by (simp add: face_defs)

section \<open>Parsing the minimal file\<close>

lemma parse_chunks_step:
  "buf \<noteq> [] \<Longrightarrow> read_chunk buf = Inr ((name, content), buf1) \<Longrightarrow>
   handle_chunk bi name content st = Inr st1 \<Longrightarrow>
   parse_chunks bi buf st = parse_chunks bi buf1 st1"
  by (subst parse_chunks.simps) simp

lemma parse_chunks_Nil: "parse_chunks bi [] st = Inr st"
  by (subst parse_chunks.simps) simp

lemma size_chunk_bytes:
  "size_chunk =
     [83, 73, 90, 69, 12, 0, 0, 0, 0, 0, 0, 0, 2, 0, 0, 0, 2, 0, 0, 0, 2, 0, 0, 0]"
  by (simp add: size_chunk_def ascii_def pack_i_def)

lemma xyzi_chunk_bytes:
  "xyzi_chunk =
     [88, 89, 90, 73, 36, 0, 0, 0, 0, 0, 0, 0, 8, 0, 0, 0,
      0, 0, 0, 1, 1, 0, 0, 1, 0, 1, 0, 1, 1, 1, 0, 1,
      0, 0, 1, 1, 1, 0, 1, 1, 0, 1, 1, 1, 1, 1, 1, 1]"
  by (simp add: xyzi_chunk_def ascii_def pack_i_def cube_voxels_def)

lemma minimal_vox_header:
  "import_vox_parse bi minimal_vox =
     parse_chunks bi (size_chunk @ xyzi_chunk) initial_state"
  by (simp add: minimal_vox_def import_vox_parse_def file_read_def bindE_def le_i32_def
      ascii_def pack_i_def)

lemma read_size_chunk:
  "read_chunk (size_chunk @ xyzi_chunk) =
     Inr ((ascii ''SIZE'', [2, 0, 0, 0, 2, 0, 0, 0, 2, 0, 0, 0]), xyzi_chunk)"
  unfolding size_chunk_bytes
  by (simp add: read_chunk_def file_read_def bindE_def le_i32_def ascii_def Let_def)

lemma handle_size_chunk:
  "handle_chunk bi (ascii ''SIZE'') [2, 0, 0, 0, 2, 0, 0, 0, 2, 0, 0, 0] st =
     Inr (st\<lparr>st_size := Some (Vec3 2 2 2)\<rparr>)"
  by (simp add: handle_chunk_def handle_SIZE_def read_content_def le_i32_def Let_def)

lemma read_xyzi_chunk:
  "read_chunk xyzi_chunk = Inr ((ascii ''XYZI'', drop 12 xyzi_chunk), [])"
  unfolding xyzi_chunk_bytes
  by (simp add: read_chunk_def file_read_def bindE_def le_i32_def ascii_def Let_def)

lemma read_cube_voxels: "read_voxels 8 (drop 16 xyzi_chunk) [] = Inr (cube_voxels, [])"
proof -
  have e8: "(8::nat) = Suc (Suc (Suc (Suc (Suc (Suc (Suc (Suc 0)))))))" by simp
  show ?thesis
    unfolding xyzi_chunk_bytes e8
    by (simp add: read_4B_def read_content_def bindE_def cube_voxels_def)
qed

lemma handle_xyzi_chunk:
  assumes "st_size st = Some sz"
  shows "handle_chunk bi (ascii ''XYZI'') (drop 12 xyzi_chunk) st =
     Inr (st\<lparr>st_models := (st_models st)(st_mod_id st \<mapsto> VoxelObject_init cube_voxels sz),
             st_mod_id := st_mod_id st + 1\<rparr>)"
proof -
  have ri: "read_int (drop 12 xyzi_chunk) = Inr (8, drop 16 xyzi_chunk)"
    unfolding xyzi_chunk_bytes by (simp add: read_int_def read_content_def le_i32_def)
  have ne: "ascii ''XYZI'' \<noteq> ascii ''SIZE''" by (simp add: ascii_def)
  from assms show ?thesis
    by (simp add: handle_chunk_def ne handle_XYZI_def ri read_cube_voxels bindE_def)
qed

lemma parse_minimal_vox:
  "import_vox_parse bi minimal_vox =
     Inr (initial_state\<lparr>st_size := Some (Vec3 2 2 2),
            st_models := [0 \<mapsto> VoxelObject_init cube_voxels (Vec3 2 2 2)],
            st_mod_id := 1\<rparr>)"
proof -
  have n1: "size_chunk @ xyzi_chunk \<noteq> []" by (simp add: size_chunk_bytes)
  have n2: "xyzi_chunk \<noteq> []" by (simp add: xyzi_chunk_bytes)
  have s2: "st_size (initial_state\<lparr>st_size := Some (Vec3 2 2 2)\<rparr>) = Some (Vec3 2 2 2)"
    by simp
  have "import_vox_parse bi minimal_vox =
          parse_chunks bi xyzi_chunk (initial_state\<lparr>st_size := Some (Vec3 2 2 2)\<rparr>)"
    unfolding minimal_vox_header
    by (rule parse_chunks_step [OF n1 read_size_chunk handle_size_chunk])
  also have "\<dots> = parse_chunks bi []
      (initial_state\<lparr>st_size := Some (Vec3 2 2 2),
         st_models := (st_models (initial_state\<lparr>st_size := Some (Vec3 2 2 2)\<rparr>))
            (st_mod_id (initial_state\<lparr>st_size := Some (Vec3 2 2 2)\<rparr>)
               \<mapsto> VoxelObject_init cube_voxels (Vec3 2 2 2)),
         st_mod_id := st_mod_id (initial_state\<lparr>st_size := Some (Vec3 2 2 2)\<rparr>) + 1\<rparr>)"
    by (rule parse_chunks_step [OF n2 read_xyzi_chunk handle_xyzi_chunk [OF s2]])
  also have "\<dots> = Inr (initial_state\<lparr>st_size := Some (Vec3 2 2 2),
            st_models := [0 \<mapsto> VoxelObject_init cube_voxels (Vec3 2 2 2)],
            st_mod_id := 1\<rparr>)"
    by (simp add: parse_chunks_Nil initial_state_def)
  finally show ?thesis .
qed

lemma getVox_cube:
  "getVox (VoxelObject_init cube_voxels sz) p =
     (if Vec3_index p \<in> {0, 1, 256, 257, 65536, 65537, 65792, 65793} then 1 else 0)"
  by (simp add: getVox_def VoxelObject_init_def cube_voxels_def Vec3_index_def)

lemma getVox_unmapped:
  "Vec3_index p \<notin> fst ` set (voxels g) \<Longrightarrow> getVox g p = 0"
  by (simp add: getVox_def map_of_eq_None_iff [THEN iffD2])

text \<open>
  Claim C1. Parsing the minimal file succeeds with exactly one model, at id 0; in that
  grid \<open>getVox\<close> is 1 at each of the eight listed positions, 0 at every position whose
  packed key is not a key of the grid's dictionary, and 0 at \<open>(3, 3, 3)\<close>.
\<close>

theorem parse_minimal_vox_getVox:
  "\<exists>st g. import_vox_parse bi minimal_vox = Inr st
     \<and> st_models st = [0 \<mapsto> g] \<and> st_mod_id st = 1
     \<and> g = VoxelObject_init cube_voxels (Vec3 2 2 2)
     \<and> (\<forall>(x, y, z, c) \<in> set cube_voxels. getVox g (Vec3 x y z) = 1)
     \<and> (\<forall>p. Vec3_index p \<notin> fst ` set (voxels g) \<longrightarrow> getVox g p = 0)
     \<and> getVox g (Vec3 3 3 3) = 0"
proof -
  let ?g = "VoxelObject_init cube_voxels (Vec3 2 2 2)"
  have a: "\<forall>(x, y, z, c) \<in> set cube_voxels. getVox ?g (Vec3 x y z) = 1"
    unfolding getVox_cube by (simp add: cube_voxels_def Vec3_index_Vec3)
  have b: "\<forall>p. Vec3_index p \<notin> fst ` set (voxels ?g) \<longrightarrow> getVox ?g p = 0"
    using getVox_unmapped by blast
  have c: "getVox ?g (Vec3 3 3 3) = 0"
    unfolding getVox_cube by (simp add: Vec3_index_Vec3)
  show ?thesis
    unfolding parse_minimal_vox using a b c by simp
qed

theorem parse_minimal_vox_getVox_witness:
  "\<exists>st g. import_vox_parse failing_builtins minimal_vox = Inr st
     \<and> st_models st 0 = Some g
     \<and> getVox g (Vec3 0 0 0) = 1 \<and> getVox g (Vec3 1 1 1) = 1
     \<and> Vec3_index (Vec3 3 3 3) \<notin> fst ` set (voxels g)
     \<and> getVox g (Vec3 3 3 3) = 0"
proof -
  obtain st g where h: "import_vox_parse failing_builtins minimal_vox = Inr st"
      "st_models st = [0 \<mapsto> g]" "g = VoxelObject_init cube_voxels (Vec3 2 2 2)"
      "\<forall>(x, y, z, c) \<in> set cube_voxels. getVox g (Vec3 x y z) = 1"
      "getVox g (Vec3 3 3 3) = 0"
    using parse_minimal_vox_getVox [of failing_builtins] by blast
  have k: "Vec3_index (Vec3 3 3 3) \<notin> fst ` set (voxels g)"
    unfolding h(3) by (simp add: VoxelObject_init_def cube_voxels_def Vec3_index_def)
  have "getVox g (Vec3 0 0 0) = 1" "getVox g (Vec3 1 1 1) = 1"
    using h(4) by (simp_all add: cube_voxels_def)
  with h k show ?thesis by auto
qed

section \<open>Voxel grid construction\<close>

lemma set_first_seen: "set (first_seen cs) = set cs"
  by (induction cs) auto

lemma distinct_first_seen: "distinct (first_seen cs)"
  by (induction cs) (auto simp: distinct_removeAll)

lemma init_voxels_used:
  "snd (init_voxels vs (al, used)) =
     used @ filter (\<lambda>c. c \<notin> set used) (first_seen (map voxel_color vs))"
proof (induction vs arbitrary: al used)
  case Nil
  then show ?case by simp
next
  case (Cons v vs)
  obtain x y z c where v: "v = (x, y, z, c)" by (cases v)
  have r: "\<And>P xs. filter P (removeAll c xs) = filter (\<lambda>d. P d \<and> d \<noteq> c) xs"
  proof -
    fix P :: "int \<Rightarrow> bool" and xs
    show "filter P (removeAll c xs) = filter (\<lambda>d. P d \<and> d \<noteq> c) xs"
      by (induction xs) auto
  qed
  show ?case
    by (auto simp: v Cons.IH voxel_color_def Let_def r intro: filter_cong)
qed

lemma init_voxels_map:
  "map_of (fst (init_voxels vs (al, used))) = map_of (rev (map voxel_entry vs) @ al)"
proof (induction vs arbitrary: al used)
  case Nil
  then show ?case by simp
next
  case (Cons v vs)
  obtain x y z c where v: "v = (x, y, z, c)" by (cases v)
  show ?case
    by (simp add: v Cons.IH voxel_entry_def Let_def update_conv' map_add_def fun_eq_iff
        split: option.splits)
qed

lemma used_colors_init:
  "used_colors (VoxelObject_init vs sz) = first_seen (map voxel_color vs)"
  using init_voxels_used [of vs "[]" "[]"]
  by (simp add: VoxelObject_init_def case_prod_unfold Let_def)

lemma voxels_init:
  "map_of (voxels (VoxelObject_init vs sz)) = map_of (rev (map voxel_entry vs))"
  using init_voxels_map [of vs "[]" "[]"]
  by (simp add: VoxelObject_init_def case_prod_unfold Let_def)

lemma stored_color_listed:
  assumes "map_of (rev (map voxel_entry vs)) k = Some (p, c)"
  shows "c \<in> voxel_color ` set vs"
proof -
  from assms have "(k, (p, c)) \<in> set (rev (map voxel_entry vs))" by (rule map_of_SomeD)
  then obtain v where "v \<in> set vs" "voxel_entry v = (k, (p, c))" by auto
  then show ?thesis
    by (force simp: voxel_entry_def voxel_color_def split: prod.splits)
qed

text \<open>
  Claim C9 as stated fails: a listed voxel of colour 0 is stored like any other, and 0
  then appears among the used colours.
\<close>

theorem color_zero_is_stored:
  "map_of (voxels (VoxelObject_init [(0, 0, 0, 0)] (Vec3 1 1 1))) 0 = Some (Vec3 0 0 0, 0)
   \<and> used_colors (VoxelObject_init [(0, 0, 0, 0)] (Vec3 1 1 1)) = [0]"
  by (simp add: VoxelObject_init_def Vec3_index_def)

text \<open>
  Claim C9, amended. For every voxel list the grid's dictionary holds, per packed key,
  the last listed entry of that key, whatever its colour; \<open>used_colors\<close> is the list of
  the listed colour ids, each once, in first-seen order. A lookup at a position whose
  stored entry has colour 0 yields 0. When no listed voxel has colour 0, no stored entry
  has colour 0 and \<open>used_colors\<close> holds only non-zero ids.
\<close>

theorem grid_stores_listed_colors:
  "used_colors (VoxelObject_init vs sz) = first_seen (map voxel_color vs)
   \<and> distinct (used_colors (VoxelObject_init vs sz))
   \<and> set (used_colors (VoxelObject_init vs sz)) = voxel_color ` set vs
   \<and> map_of (voxels (VoxelObject_init vs sz)) = map_of (rev (map voxel_entry vs))
   \<and> (\<forall>p q. map_of (voxels (VoxelObject_init vs sz)) (Vec3_index p) = Some (q, 0) \<longrightarrow>
         getVox (VoxelObject_init vs sz) p = 0)
   \<and> (0 \<notin> voxel_color ` set vs \<longrightarrow>
        0 \<notin> set (used_colors (VoxelObject_init vs sz))
        \<and> (\<forall>k p c. map_of (voxels (VoxelObject_init vs sz)) k = Some (p, c) \<longrightarrow> c \<noteq> 0))"
proof -
  have "c \<noteq> 0" if "0 \<notin> voxel_color ` set vs"
      and "map_of (rev (map voxel_entry vs)) k = Some (p, c)" for k p c
    using stored_color_listed [OF that(2)] that(1) by auto
  then show ?thesis
    by (auto simp: used_colors_init voxels_init distinct_first_seen set_first_seen
        getVox_def)
qed

theorem grid_stores_listed_colors_witness:
  "used_colors (VoxelObject_init [(0, 0, 0, 2), (1, 0, 0, 1), (0, 0, 0, 1), (5, 0, 0, 2)]
                  (Vec3 6 1 1)) = [2, 1]
   \<and> map_of (voxels (VoxelObject_init [(0, 0, 0, 2), (1, 0, 0, 1), (0, 0, 0, 1), (5, 0, 0, 2)]
                  (Vec3 6 1 1))) 0 = Some (Vec3 0 0 0, 1)
   \<and> (0::int) \<notin> voxel_color ` set [(0, 0, 0, 2), (1, 0, 0, 1), (0, 0, 0, 1), (5, 0, 0, 2)]
   \<and> 0 \<notin> set (used_colors (VoxelObject_init
                  [(0, 0, 0, 2), (1, 0, 0, 1), (0, 0, 0, 1), (5, 0, 0, 2)] (Vec3 6 1 1)))
   \<and> map_of (voxels (VoxelObject_init [(0, 0, 0, 0)] (Vec3 1 1 1)))
         (Vec3_index (Vec3 0 0 0)) = Some (Vec3 0 0 0, 0)
   \<and> getVox (VoxelObject_init [(0, 0, 0, 0)] (Vec3 1 1 1)) (Vec3 0 0 0) = 0"
proof -
  let ?vs = "[(0, 0, 0, 2), (1, 0, 0, 1), (0, 0, 0, 1), (5, 0, 0, 2)] :: voxel list"
  note g = grid_stores_listed_colors [of ?vs "Vec3 6 1 1"]
  note h = grid_stores_listed_colors [of "[(0, 0, 0, 0)]" "Vec3 1 1 1"]
  have z: "(0::int) \<notin> voxel_color ` set ?vs"
    by (simp add: voxel_color_def)
  have s: "map_of (voxels (VoxelObject_init [(0, 0, 0, 0)] (Vec3 1 1 1)))
         (Vec3_index (Vec3 0 0 0)) = Some (Vec3 0 0 0, 0)"
    by (simp add: VoxelObject_init_def Vec3_index_def)
  have u: "used_colors (VoxelObject_init ?vs (Vec3 6 1 1)) = [2, 1]"
    unfolding g [THEN conjunct1] by (simp add: voxel_color_def)
  have m: "map_of (voxels (VoxelObject_init ?vs (Vec3 6 1 1))) 0 = Some (Vec3 0 0 0, 1)"
    unfolding g [THEN conjunct2, THEN conjunct2, THEN conjunct2, THEN conjunct1]
    by (simp add: voxel_entry_def Vec3_index_def)
  have n: "0 \<notin> set (used_colors (VoxelObject_init ?vs (Vec3 6 1 1)))"
    using g [THEN conjunct2, THEN conjunct2, THEN conjunct2, THEN conjunct2,
             THEN conjunct2, THEN mp, OF z]
    by (rule conjunct1)
  have v: "getVox (VoxelObject_init [(0, 0, 0, 0)] (Vec3 1 1 1)) (Vec3 0 0 0) = 0"
    using h [THEN conjunct2, THEN conjunct2, THEN conjunct2, THEN conjunct2,
             THEN conjunct1, rule_format, OF s] .
  show ?thesis
    by (intro conjI) (rule u m z n s v)+
qed

section \<open>The chunk header and body\<close>

text \<open>
  Claim C8 as stated fails: a chunk whose header declares 12 payload bytes, followed by
  only 2 bytes before the end of the stream, is returned with the 2-byte payload.
\<close>

theorem read_chunk_truncated_body:
  "read_chunk (ascii ''SIZE'' @ pack_i 12 @ pack_i 0 @ [2, 0]) =
     Inr ((ascii ''SIZE'', [2, 0]), [])"
  by (simp add: read_chunk_def file_read_def bindE_def le_i32_def ascii_def pack_i_def
      Let_def)

text \<open>
  Claim C8, amended. \<open>read_chunk\<close> fails when fewer than 12 bytes remain for the header.
  Otherwise the tag is the first 4 bytes and the payload length \<open>h\<close> the next 4 as a signed
  32-bit integer; for \<open>h \<ge> 0\<close> the payload is the next \<open>h\<close> bytes or, when fewer remain,
  all the remaining bytes, without failure. A length of \<open>-1\<close> takes the rest of the stream
  and a length below \<open>-1\<close> fails.
\<close>

theorem read_chunk_header_and_body:
  "(length buf < 12 \<longrightarrow> read_chunk buf = Inl StructError)
   \<and> (12 \<le> length buf \<and> 0 \<le> le_i32 (take 4 (drop 4 buf)) \<longrightarrow>
        read_chunk buf =
          Inr ((take 4 buf, take (nat (le_i32 (take 4 (drop 4 buf)))) (drop 12 buf)),
               drop (12 + nat (le_i32 (take 4 (drop 4 buf)))) buf))
   \<and> (12 \<le> length buf \<and> le_i32 (take 4 (drop 4 buf)) = - 1 \<longrightarrow>
        read_chunk buf = Inr ((take 4 buf, drop 12 buf), []))
   \<and> (12 \<le> length buf \<and> le_i32 (take 4 (drop 4 buf)) < - 1 \<longrightarrow>
        read_chunk buf = Inl ValueError)"
proof -
  have h: "take 4 (drop 4 (take 12 buf)) = take 4 (drop 4 buf)"
    by (simp add: drop_take)
  have n: "take 4 (take 12 buf) = take 4 buf" by simp
  show ?thesis
    by (auto simp: read_chunk_def file_read_def bindE_def Let_def h n add.commute)
qed

theorem read_chunk_header_and_body_witness:
  "length (ascii ''SIZE'' @ [12, 0, 0]) < 12
   \<and> read_chunk (ascii ''SIZE'' @ [12, 0, 0]) = Inl StructError
   \<and> 12 \<le> length size_chunk \<and> 0 \<le> le_i32 (take 4 (drop 4 size_chunk))
   \<and> read_chunk size_chunk =
       Inr ((ascii ''SIZE'', [2, 0, 0, 0, 2, 0, 0, 0, 2, 0, 0, 0]), [])
   \<and> le_i32 (take 4 (drop 4 (ascii ''SIZE'' @ [255, 255, 255, 255] @ pack_i 0 @ [7]))) = - 1
   \<and> read_chunk (ascii ''SIZE'' @ [255, 255, 255, 255] @ pack_i 0 @ [7]) =
       Inr ((ascii ''SIZE'', [7]), [])
   \<and> le_i32 (take 4 (drop 4 (ascii ''SIZE'' @ [254, 255, 255, 255] @ pack_i 0 @ [7]))) < - 1
   \<and> read_chunk (ascii ''SIZE'' @ [254, 255, 255, 255] @ pack_i 0 @ [7]) = Inl ValueError"
proof -
  let ?m1 = "ascii ''SIZE'' @ [255, 255, 255, 255] @ pack_i 0 @ [7]"
  let ?m2 = "ascii ''SIZE'' @ [254, 255, 255, 255] @ pack_i 0 @ [7]"
  have q1: "12 \<le> length ?m1 \<and> le_i32 (take 4 (drop 4 ?m1)) = - 1"
    by (simp add: ascii_def pack_i_def le_i32_def)
  have r1: "read_chunk ?m1 = Inr ((ascii ''SIZE'', [7]), [])"
    using read_chunk_header_and_body [of ?m1, THEN conjunct2, THEN conjunct2,
        THEN conjunct1, THEN mp, OF q1]
    by (simp add: ascii_def pack_i_def)
  have q2: "12 \<le> length ?m2 \<and> le_i32 (take 4 (drop 4 ?m2)) < - 1"
    by (simp add: ascii_def pack_i_def le_i32_def)
  have r2: "read_chunk ?m2 = Inl ValueError"
    using read_chunk_header_and_body [of ?m2, THEN conjunct2, THEN conjunct2,
        THEN conjunct2, THEN mp, OF q2] .
  have l: "length (ascii ''SIZE'' @ [12, 0, 0 :: byte]) < 12" by (simp add: ascii_def)
  have a: "read_chunk (ascii ''SIZE'' @ [12, 0, 0]) = Inl StructError"
    using read_chunk_header_and_body [of "ascii ''SIZE'' @ [12, 0, 0]", THEN conjunct1] l
    by (rule mp)
  have p: "12 \<le> length size_chunk \<and> 0 \<le> le_i32 (take 4 (drop 4 size_chunk))"
    by (simp add: size_chunk_bytes le_i32_def)
  have b: "read_chunk size_chunk =
       Inr ((ascii ''SIZE'', [2, 0, 0, 0, 2, 0, 0, 0, 2, 0, 0, 0]), [])"
    using read_chunk_header_and_body [of size_chunk, THEN conjunct2, THEN conjunct1,
        THEN mp, OF p]
    by (simp add: size_chunk_bytes le_i32_def ascii_def)
  from l a p b q1 r1 q2 r2 show ?thesis by simp
qed

section \<open>Scene graph resolution: proofs\<close>

lemma place_models_ok:
  "list_all (\<lambda>m. M m \<noteq> None) ms \<Longrightarrow>
   place_models M loc [rx, ry, rz] ms acc =
     Inr (acc @ map (\<lambda>m. stamp loc (Vec3 rx ry rz) (the (M m))) ms)"
  by (induction ms arbitrary: acc) (auto simp: stamp_def)

lemma place_models_missing:
  "m \<in> set ms \<Longrightarrow> M m = None \<Longrightarrow> place_models M loc [rx, ry, rz] ms acc = Inl KeyError"
  by (induction ms arbitrary: acc) (auto split: option.splits)

lemma place_models_missing_any:
  "m \<in> set ms \<Longrightarrow> M m = None \<Longrightarrow> \<exists>e. place_models M loc rot ms acc = Inl e"
  by (induction ms arbitrary: acc) (auto split: option.splits list.splits)

lemma length3_cases: "length r = 3 \<Longrightarrow> \<exists>a b c. r = [a, b, c]"
  by (cases r; simp; cases "tl r"; simp; cases "tl (tl r)"; auto)

lemma add_rotation3:
  "length r = 3 \<Longrightarrow> add_rotation fadd r [a, b, c] = rotation_step fadd [a, b, c] r"
  using length3_cases [of r] by (auto simp: add_rotation_def rotation_step_def)

lemma rotation_step_triple:
  "rotation_step fadd [a, b, c] r =
     [fadd (fadd 0 (r ! 0)) a, fadd (fadd 0 (r ! 1)) b, fadd (fadd 0 (r ! 2)) c]"
  by (simp add: rotation_step_def)

lemma foldl_rotation_step_triple:
  "foldl (rotation_step fadd) [a, b, c] rs =
     [foldl (rotation_step fadd) [a, b, c] rs ! 0, foldl (rotation_step fadd) [a, b, c] rs ! 1,
      foldl (rotation_step fadd) [a, b, c] rs ! 2]"
proof (induction rs arbitrary: a b c)
  case Nil
  show ?case by simp
next
  case (Cons r rs)
  show ?case
    unfolding foldl_Cons rotation_step_triple by (rule Cons.IH)
qed

lemma traverse_chain:
  "transform_chain T i trs j \<Longrightarrow> list_all (\<lambda>(t, r). length r = 3) trs \<Longrightarrow>
   traverse_scene_graph (length trs + n) fadd T G S M (Vec3 lx ly lz) [a, b, c] i acc =
   traverse_scene_graph n fadd T G S M
     (Vec3 (lx + sum_list (map (vx \<circ> fst) trs)) (ly + sum_list (map (vy \<circ> fst) trs))
           (lz + sum_list (map (vz \<circ> fst) trs)))
     (foldl (rotation_step fadd) [a, b, c] (map snd trs)) j acc"
proof (induction trs arbitrary: i lx ly lz a b c)
  case Nil
  then show ?case by simp
next
  case (Cons tr trs)
  obtain t r where tr: "tr = (t, r)" by (cases tr)
  from Cons.prems tr obtain ch
    where Ti: "T i = Some (ch, t, r)" and ch: "transform_chain T ch trs j"
    by (auto split: option.splits)
  from Cons.prems tr
  have l3: "length r = 3" and rest: "list_all (\<lambda>(t, r). length r = 3) trs"
    by auto
  have "traverse_scene_graph (length (tr # trs) + n) fadd T G S M (Vec3 lx ly lz) [a, b, c]
          i acc =
        traverse_scene_graph (length trs + n) fadd T G S M
          (Vec3 (lx + vx t) (ly + vy t) (lz + vz t))
          [fadd (fadd 0 (r ! 0)) a, fadd (fadd 0 (r ! 1)) b, fadd (fadd 0 (r ! 2)) c] ch acc"
    using Ti l3 by (simp add: add_location_def add_rotation3 rotation_step_triple)
  also have "\<dots> = traverse_scene_graph n fadd T G S M
     (Vec3 (lx + vx t + sum_list (map (vx \<circ> fst) trs))
           (ly + vy t + sum_list (map (vy \<circ> fst) trs))
           (lz + vz t + sum_list (map (vz \<circ> fst) trs)))
     (foldl (rotation_step fadd)
        [fadd (fadd 0 (r ! 0)) a, fadd (fadd 0 (r ! 1)) b, fadd (fadd 0 (r ! 2)) c]
        (map snd trs)) j acc"
    by (rule Cons.IH [OF ch rest])
  also have "\<dots> = traverse_scene_graph n fadd T G S M
     (Vec3 (lx + sum_list (map (vx \<circ> fst) (tr # trs)))
           (ly + sum_list (map (vy \<circ> fst) (tr # trs)))
           (lz + sum_list (map (vz \<circ> fst) (tr # trs))))
     (foldl (rotation_step fadd) [a, b, c] (map snd (tr # trs))) j acc"
    by (simp add: tr rotation_step_triple add.assoc)
  finally show ?case .
qed

lemma traverse_children_concat:
  "\<forall>c \<in> set cs. \<forall>a. traverse_scene_graph n fadd T G S M loc rot c a = Inr (a @ f c) \<Longrightarrow>
   traverse_children n fadd T G S M loc rot cs acc = Inr (acc @ concat (map f cs))"
  by (induction cs arbitrary: acc) simp_all

lemma traverse_children_error:
  "c \<in> set cs \<Longrightarrow> \<forall>a. \<exists>e. traverse_scene_graph n fadd T G S M loc rot c a = Inl e \<Longrightarrow>
   \<exists>e. traverse_children n fadd T G S M loc rot cs acc = Inl e"
proof (induction cs arbitrary: acc)
  case Nil
  then show ?case by simp
next
  case (Cons d cs)
  show ?case
  proof (cases "traverse_scene_graph n fadd T G S M loc rot d acc")
    case (Inl e)
    then show ?thesis by simp
  next
    case (Inr acc')
    with Cons.prems have "c \<in> set cs" by (metis Inl_Inr_False set_ConsD)
    from Cons.IH [OF this Cons.prems(2)] Inr show ?thesis by simp
  qed
qed

lemma solve_chain_to_node:
  assumes "transform_chain T 0 trs j" and "trs \<noteq> []"
    and "list_all (\<lambda>(t, r). length r = 3) trs"
  shows "solve_scene_graph (length trs + k) fadd T G S M =
     traverse_scene_graph k fadd T G S M (sum_locations (map fst trs))
       (chain_rotation fadd (map snd trs)) j []"
proof -
  from assms(1,2) have root: "T 0 \<noteq> None" by (cases trs) (auto split: option.splits)
  have "solve_scene_graph (length trs + k) fadd T G S M =
      traverse_scene_graph (length trs + k) fadd T G S M (Vec3 0 0 0) [0, 0, 0] 0 []"
    using root
    by (auto simp add: solve_scene_graph_def simp del: traverse_scene_graph.simps)
  also have "\<dots> = traverse_scene_graph k fadd T G S M
     (Vec3 (0 + sum_list (map (vx \<circ> fst) trs)) (0 + sum_list (map (vy \<circ> fst) trs))
           (0 + sum_list (map (vz \<circ> fst) trs)))
     (foldl (rotation_step fadd) [0, 0, 0] (map snd trs)) j []"
    by (rule traverse_chain [OF assms(1,3)])
  also have "\<dots> = traverse_scene_graph k fadd T G S M (sum_locations (map fst trs))
       (chain_rotation fadd (map snd trs)) j []"
    by (simp add: sum_locations_def chain_rotation_def comp_def)
  finally show ?thesis .
qed

lemma solve_chain_to_shape:
  assumes "transform_chain T 0 trs j" and "trs \<noteq> []"
    and "list_all (\<lambda>(t, r). length r = 3) trs"
    and "T j = None" and "G j = None" and "S j = Some ms"
    and "list_all (\<lambda>m. M m \<noteq> None) ms"
    and "length trs < depth"
  shows "solve_scene_graph depth fadd T G S M =
     Inr (map (\<lambda>m. stamp (sum_locations (map fst trs))
                      (rotation_vec (chain_rotation fadd (map snd trs))) (the (M m))) ms)"
proof -
  from assms(8) obtain k where d: "depth = length trs + Suc k"
    by (metis less_iff_Suc_add add_Suc_right)
  let ?rot = "chain_rotation fadd (map snd trs)"
  have tri: "?rot = [?rot ! 0, ?rot ! 1, ?rot ! 2]"
    unfolding chain_rotation_def by (rule foldl_rotation_step_triple)
  have "solve_scene_graph depth fadd T G S M =
     traverse_scene_graph (Suc k) fadd T G S M (sum_locations (map fst trs)) ?rot j []"
    unfolding d by (rule solve_chain_to_node [OF assms(1,2,3)])
  also have "\<dots> = place_models M (sum_locations (map fst trs)) ?rot ms []"
    using assms(4,5,6) by simp
  also have "\<dots> = place_models M (sum_locations (map fst trs)) [?rot ! 0, ?rot ! 1, ?rot ! 2]
      ms []"
    using tri by simp
  also have "\<dots> = Inr (map (\<lambda>m. stamp (sum_locations (map fst trs))
                      (rotation_vec ?rot) (the (M m))) ms)"
    using place_models_ok [OF assms(7)] by (simp add: rotation_vec_def)
  finally show ?thesis .
qed


text \<open>
  Claim C6. Whenever node 0 is not a key of the transform table, resolution raises the
  \<open>ValueError\<close> of the root check; no instance list is returned, at any recursion limit.
\<close>

theorem solve_scene_graph_no_root:
  "transforms 0 = None \<Longrightarrow>
   solve_scene_graph depth fadd transforms groups shapes models = Inl ValueError"
  by (simp add: solve_scene_graph_def)

theorem solve_scene_graph_no_root_witness:
  "([1 \<mapsto> (2, Vec3 1 0 0, [0, 0, 0])] :: transform_nodes) 0 = None
   \<and> solve_scene_graph 5 (+) [1 \<mapsto> (2, Vec3 1 0 0, [0, 0, 0])] Map.empty [2 \<mapsto> [0]]
        [0 \<mapsto> unit_model] = Inl ValueError"
  using solve_scene_graph_no_root
    [of "[1 \<mapsto> (2, Vec3 1 0 0, [0, 0, 0])]" 5 "(+)" Map.empty "[2 \<mapsto> [0]]"
        "[0 \<mapsto> unit_model]"]
  by simp

text \<open>
  Claim C4. At every transform node, wherever it lies in the graph, the traversal goes on
  at the node's child with the node's translation added component-wise to the accumulated
  position and its Euler rotation added component-wise to the accumulated rotation, the
  additions of the rotation being the ones the code performs, \<open>(0 + r) + current\<close>. A
  group node hands the unchanged position and rotation to each child in turn and the
  instances of the children are collected in order. Hence, when the nodes from the root
  form a chain of transform nodes, resolution is the traversal of the node the chain ends
  in, started from the sum of the chain's translations and from the chain's rotations
  added one after the other; when that node is a shape node whose models all exist and
  the recursion limit exceeds the length of the chain, resolution returns one instance
  per referenced model with that position and rotation. The witness holds the nested
  example of the specification, which resolves to exactly one instance at \<open>(1, 2, 0)\<close>,
  and a graph with a group below the root.
\<close>

theorem solve_transform_chain_additive:
  "(T cid = Some (child, Vec3 tx ty tz, [r0, r1, r2]) \<longrightarrow>
      traverse_scene_graph (Suc n) fadd T G S M (Vec3 lx ly lz) [a0, a1, a2] cid acc =
      traverse_scene_graph n fadd T G S M (Vec3 (lx + tx) (ly + ty) (lz + tz))
        [fadd (fadd 0 r0) a0, fadd (fadd 0 r1) a1, fadd (fadd 0 r2) a2] child acc)
   \<and> (T gid = None \<and> G gid = Some cs
        \<and> (\<forall>c \<in> set cs. \<forall>a. traverse_scene_graph n fadd T G S M loc rot c a = Inr (a @ f c)) \<longrightarrow>
      traverse_scene_graph (Suc n) fadd T G S M loc rot gid acc =
        Inr (acc @ concat (map f cs)))
   \<and> (transform_chain T 0 trs j \<and> trs \<noteq> [] \<and> list_all (\<lambda>(t, r). length r = 3) trs \<longrightarrow>
      solve_scene_graph (length trs + k) fadd T G S M =
        traverse_scene_graph k fadd T G S M (sum_locations (map fst trs))
          (chain_rotation fadd (map snd trs)) j [])
   \<and> (transform_chain T 0 trs j \<and> trs \<noteq> [] \<and> list_all (\<lambda>(t, r). length r = 3) trs
        \<and> T j = None \<and> G j = None \<and> S j = Some ms \<and> list_all (\<lambda>m. M m \<noteq> None) ms
        \<and> length trs < depth \<longrightarrow>
      solve_scene_graph depth fadd T G S M =
        Inr (map (\<lambda>m. stamp (sum_locations (map fst trs))
                        (rotation_vec (chain_rotation fadd (map snd trs))) (the (M m))) ms))"
proof -
  have c1: "T cid = Some (child, Vec3 tx ty tz, [r0, r1, r2]) \<longrightarrow>
      traverse_scene_graph (Suc n) fadd T G S M (Vec3 lx ly lz) [a0, a1, a2] cid acc =
      traverse_scene_graph n fadd T G S M (Vec3 (lx + tx) (ly + ty) (lz + tz))
        [fadd (fadd 0 r0) a0, fadd (fadd 0 r1) a1, fadd (fadd 0 r2) a2] child acc"
    by (simp add: add_location_def add_rotation_def)
  have c2: "T gid = None \<and> G gid = Some cs
        \<and> (\<forall>c \<in> set cs. \<forall>a. traverse_scene_graph n fadd T G S M loc rot c a = Inr (a @ f c)) \<longrightarrow>
      traverse_scene_graph (Suc n) fadd T G S M loc rot gid acc =
        Inr (acc @ concat (map f cs))"
  proof (intro impI, elim conjE)
    assume "T gid = None" "G gid = Some cs"
      and ch: "\<forall>c \<in> set cs. \<forall>a. traverse_scene_graph n fadd T G S M loc rot c a = Inr (a @ f c)"
    then show "traverse_scene_graph (Suc n) fadd T G S M loc rot gid acc =
        Inr (acc @ concat (map f cs))"
      using traverse_children_concat [OF ch, of acc] by simp
  qed
  have c3: "transform_chain T 0 trs j \<and> trs \<noteq> [] \<and> list_all (\<lambda>(t, r). length r = 3) trs \<longrightarrow>
      solve_scene_graph (length trs + k) fadd T G S M =
        traverse_scene_graph k fadd T G S M (sum_locations (map fst trs))
          (chain_rotation fadd (map snd trs)) j []"
  proof (intro impI, elim conjE)
    assume "transform_chain T 0 trs j" "trs \<noteq> []" "list_all (\<lambda>(t, r). length r = 3) trs"
    then show "solve_scene_graph (length trs + k) fadd T G S M =
        traverse_scene_graph k fadd T G S M (sum_locations (map fst trs))
          (chain_rotation fadd (map snd trs)) j []"
      by (rule solve_chain_to_node)
  qed
  have c4: "transform_chain T 0 trs j \<and> trs \<noteq> [] \<and> list_all (\<lambda>(t, r). length r = 3) trs
        \<and> T j = None \<and> G j = None \<and> S j = Some ms \<and> list_all (\<lambda>m. M m \<noteq> None) ms
        \<and> length trs < depth \<longrightarrow>
      solve_scene_graph depth fadd T G S M =
        Inr (map (\<lambda>m. stamp (sum_locations (map fst trs))
                        (rotation_vec (chain_rotation fadd (map snd trs))) (the (M m))) ms)"
  proof (intro impI, elim conjE)
    assume "transform_chain T 0 trs j" "trs \<noteq> []" "list_all (\<lambda>(t, r). length r = 3) trs"
      "T j = None" "G j = None" "S j = Some ms" "list_all (\<lambda>m. M m \<noteq> None) ms"
      "length trs < depth"
    then show "solve_scene_graph depth fadd T G S M =
        Inr (map (\<lambda>m. stamp (sum_locations (map fst trs))
                        (rotation_vec (chain_rotation fadd (map snd trs))) (the (M m))) ms)"
      by (rule solve_chain_to_shape)
  qed
  show ?thesis
    by (intro conjI) (rule c1 c2 c3 c4)+
qed

theorem solve_transform_chain_additive_witness:
  "transform_chain [0 \<mapsto> (1, Vec3 1 0 0, [0, 0, 0]), 1 \<mapsto> (2, Vec3 0 2 0, [0, 0, 0])] 0
     [(Vec3 1 0 0, [0, 0, 0]), (Vec3 0 2 0, [0, 0, 0])] 2
   \<and> solve_scene_graph 3 (+)
       [0 \<mapsto> (1, Vec3 1 0 0, [0, 0, 0]), 1 \<mapsto> (2, Vec3 0 2 0, [0, 0, 0])]
       Map.empty [2 \<mapsto> [0]] [0 \<mapsto> unit_model] =
     Inr [unit_model\<lparr>rotation := Vec3 0 0 0, position := Vec3 1 2 0\<rparr>]
   \<and> traverse_scene_graph (Suc (Suc 0)) (+)
       [0 \<mapsto> (1, Vec3 1 0 0, [0, 0, 0]), 2 \<mapsto> (4, Vec3 0 2 0, [0, 0, 0])]
       [1 \<mapsto> [2, 3]] [3 \<mapsto> [0], 4 \<mapsto> [0]] [0 \<mapsto> unit_model]
       (Vec3 1 0 0) [0, 0, 0] 2 [] =
     Inr [unit_model\<lparr>rotation := Vec3 0 0 0, position := Vec3 1 2 0\<rparr>]
   \<and> solve_scene_graph (Suc (Suc (Suc (Suc 0)))) (+)
       [0 \<mapsto> (1, Vec3 1 0 0, [0, 0, 0]), 2 \<mapsto> (4, Vec3 0 2 0, [0, 0, 0])]
       [1 \<mapsto> [2, 3]] [3 \<mapsto> [0], 4 \<mapsto> [0]] [0 \<mapsto> unit_model] =
     Inr [unit_model\<lparr>rotation := Vec3 0 0 0, position := Vec3 1 2 0\<rparr>,
          unit_model\<lparr>rotation := Vec3 0 0 0, position := Vec3 1 0 0\<rparr>]"
proof -
  let ?T0 = "[0 \<mapsto> (1, Vec3 1 0 0, [0, 0, 0]), 1 \<mapsto> (2, Vec3 0 2 0, [0, 0, 0])]
               :: transform_nodes"
  let ?S0 = "[2 \<mapsto> [0]] :: shape_nodes"
  let ?E = "Map.empty :: group_nodes"
  let ?M = "[0 \<mapsto> unit_model] :: model_table"
  let ?T1 = "[0 \<mapsto> (1, Vec3 1 0 0, [0, 0, 0]), 2 \<mapsto> (4, Vec3 0 2 0, [0, 0, 0])]
               :: transform_nodes"
  let ?G1 = "[1 \<mapsto> [2, 3]] :: group_nodes"
  let ?S1 = "[3 \<mapsto> [0], 4 \<mapsto> [0]] :: shape_nodes"
  let ?i12 = "unit_model\<lparr>rotation := Vec3 0 0 0, position := Vec3 1 2 0\<rparr>"
  let ?i10 = "unit_model\<lparr>rotation := Vec3 0 0 0, position := Vec3 1 0 0\<rparr>"
  let ?f = "\<lambda>c::int. if c = 2 then [?i12] else [?i10]"
  let ?trs0 = "[(Vec3 1 0 0, [0, 0, 0]), (Vec3 0 2 0, [0, 0, 0])]
                 :: (int Vec3 \<times> real list) list"
  let ?trs1 = "[(Vec3 1 0 0, [0, 0, 0])] :: (int Vec3 \<times> real list) list"
  have ch0: "transform_chain ?T0 0 [(Vec3 1 0 0, [0, 0, 0]), (Vec3 0 2 0, [0, 0, 0])] 2"
    by simp
  have a: "solve_scene_graph 3 (+) ?T0 ?E ?S0 ?M = Inr [?i12]"
  proof -
    have "solve_scene_graph 3 (+) ?T0 ?E ?S0 ?M =
        Inr (map (\<lambda>m. stamp (sum_locations (map fst ?trs0))
               (rotation_vec (chain_rotation (+) (map snd ?trs0)))
               (the (?M m))) [0])"
      by (rule solve_transform_chain_additive
            [where T = ?T0 and trs = ?trs0
               and j = 2 and G = ?E and S = ?S0 and ms = "[0]" and M = ?M and depth = 3
               and fadd = "(+)",
             THEN conjunct2, THEN conjunct2, THEN conjunct2, THEN mp]) simp
    then show ?thesis
      by (simp add: sum_locations_def chain_rotation_def rotation_step_def rotation_vec_def
          stamp_def)
  qed
  have b: "traverse_scene_graph (Suc (Suc 0)) (+) ?T1 ?G1 ?S1 ?M (Vec3 1 0 0) [0, 0, 0] 2 acc =
      Inr (acc @ [?i12])" for acc
  proof -
    have "traverse_scene_graph (Suc (Suc 0)) (+) ?T1 ?G1 ?S1 ?M (Vec3 1 0 0) [0, 0, 0] 2 acc =
        traverse_scene_graph (Suc 0) (+) ?T1 ?G1 ?S1 ?M (Vec3 (1 + 0) (0 + 2) (0 + 0))
          [0 + 0 + 0, 0 + 0 + 0, 0 + 0 + 0] 4 acc"
      by (rule solve_transform_chain_additive
            [where T = ?T1 and cid = 2 and child = 4 and fadd = "(+)",
             THEN conjunct1, THEN mp]) simp
    then show ?thesis by simp
  qed
  have c: "traverse_scene_graph (Suc (Suc 0)) (+) ?T1 ?G1 ?S1 ?M (Vec3 1 0 0) [0, 0, 0] 3 acc =
      Inr (acc @ [?i10])" for acc
    by simp
  have g: "traverse_scene_graph (Suc (Suc (Suc 0))) (+) ?T1 ?G1 ?S1 ?M (Vec3 1 0 0) [0, 0, 0]
       1 [] = Inr ([] @ concat (map ?f [2, 3]))"
    by (rule solve_transform_chain_additive
          [where T = ?T1 and G = ?G1 and gid = 1 and cs = "[2, 3]" and f = ?f
             and fadd = "(+)",
           THEN conjunct2, THEN conjunct1, THEN mp]) (simp add: b c del: traverse_scene_graph.simps)
  have d: "solve_scene_graph (Suc (Suc (Suc (Suc 0)))) (+) ?T1 ?G1 ?S1 ?M = Inr [?i12, ?i10]"
  proof -
    have "solve_scene_graph (length ?trs1 + Suc (Suc (Suc 0))) (+) ?T1 ?G1 ?S1 ?M =
        traverse_scene_graph (Suc (Suc (Suc 0))) (+) ?T1 ?G1 ?S1 ?M
          (sum_locations (map fst ?trs1)) (chain_rotation (+) (map snd ?trs1)) 1 []"
      by (rule solve_transform_chain_additive
            [where T = ?T1 and trs = ?trs1 and j = 1 and fadd = "(+)",
             THEN conjunct2, THEN conjunct2, THEN conjunct1, THEN mp]) simp
    then have "solve_scene_graph (Suc (Suc (Suc (Suc 0)))) (+) ?T1 ?G1 ?S1 ?M =
        traverse_scene_graph (Suc (Suc (Suc 0))) (+) ?T1 ?G1 ?S1 ?M (Vec3 1 0 0) [0, 0, 0] 1 []"
      by (simp add: sum_locations_def chain_rotation_def rotation_step_def
          del: traverse_scene_graph.simps)
    with g show ?thesis by simp
  qed
  from ch0 a b [of "[]"] d show ?thesis by simp
qed

text \<open>
  Claim C7 as stated fails: a root transform whose child id 7 is in none of the three
  tables resolves to the empty instance list, without an error.
\<close>

theorem dangling_child_not_fatal:
  "solve_scene_graph 2 (+) [0 \<mapsto> (7, Vec3 0 0 0, [0, 0, 0])] Map.empty Map.empty Map.empty
     = Inr []"
  by (simp add: solve_scene_graph_def numeral_2_eq_2)


text \<open>
  Claim C7, amended. Visiting a node id that is in none of the three tables returns the
  instances collected so far, without an error. Visiting a shape node that references a
  model id absent from the model table fails (with \<open>KeyError\<close> when the accumulated
  rotation has three components), and the failure ends the resolution: it passes
  unchanged through an enclosing transform node, and a group node with a child whose
  traversal fails also fails.
\<close>

theorem dangling_child_skipped_missing_model_fatal:
  "(T cid = None \<and> G cid = None \<and> S cid = None \<longrightarrow>
      traverse_scene_graph (Suc n) fadd T G S M loc rot cid acc = Inr acc)
   \<and> (T cid = None \<and> G cid = None \<and> S cid = Some ms \<and> m \<in> set ms \<and> M m = None \<longrightarrow>
      (\<exists>e. traverse_scene_graph (Suc n) fadd T G S M loc rot cid acc = Inl e))
   \<and> (T cid = None \<and> G cid = None \<and> S cid = Some ms \<and> m \<in> set ms \<and> M m = None
        \<and> length rot = 3 \<longrightarrow>
      traverse_scene_graph (Suc n) fadd T G S M loc rot cid acc = Inl KeyError)
   \<and> (T cid = Some (child, t, r)
        \<and> traverse_scene_graph n fadd T G S M (add_location loc t) (add_rotation fadd r rot) child acc
            = Inl e \<longrightarrow>
      traverse_scene_graph (Suc n) fadd T G S M loc rot cid acc = Inl e)
   \<and> (T cid = None \<and> G cid = Some cs \<and> c \<in> set cs
        \<and> (\<forall>a. \<exists>e. traverse_scene_graph n fadd T G S M loc rot c a = Inl e) \<longrightarrow>
      (\<exists>e. traverse_scene_graph (Suc n) fadd T G S M loc rot cid acc = Inl e))"
proof -
  have k: "place_models M loc rot ms acc = Inl KeyError"
    if "m \<in> set ms" "M m = None" "length rot = 3"
    using length3_cases [OF that(3)] place_models_missing [of m ms M loc _ _ _ acc] that(1,2)
    by auto
  have c1: "T cid = None \<and> G cid = None \<and> S cid = None \<longrightarrow>
      traverse_scene_graph (Suc n) fadd T G S M loc rot cid acc = Inr acc"
    by simp
  have c2: "T cid = None \<and> G cid = None \<and> S cid = Some ms \<and> m \<in> set ms \<and> M m = None \<longrightarrow>
      (\<exists>e. traverse_scene_graph (Suc n) fadd T G S M loc rot cid acc = Inl e)"
    using place_models_missing_any [of m ms M loc rot acc] by simp
  have c3: "T cid = None \<and> G cid = None \<and> S cid = Some ms \<and> m \<in> set ms \<and> M m = None
        \<and> length rot = 3 \<longrightarrow>
      traverse_scene_graph (Suc n) fadd T G S M loc rot cid acc = Inl KeyError"
    using k by simp
  have c4: "T cid = Some (child, t, r)
        \<and> traverse_scene_graph n fadd T G S M (add_location loc t) (add_rotation fadd r rot) child acc
            = Inl e \<longrightarrow>
      traverse_scene_graph (Suc n) fadd T G S M loc rot cid acc = Inl e"
    by simp
  have c5: "T cid = None \<and> G cid = Some cs \<and> c \<in> set cs
        \<and> (\<forall>a. \<exists>e. traverse_scene_graph n fadd T G S M loc rot c a = Inl e) \<longrightarrow>
      (\<exists>e. traverse_scene_graph (Suc n) fadd T G S M loc rot cid acc = Inl e)"
  proof (intro impI, elim conjE)
    assume "T cid = None" "G cid = Some cs" "c \<in> set cs"
      "\<forall>a. \<exists>e. traverse_scene_graph n fadd T G S M loc rot c a = Inl e"
    then show "\<exists>e. traverse_scene_graph (Suc n) fadd T G S M loc rot cid acc = Inl e"
      using traverse_children_error [of c cs n fadd T G S M loc rot acc] by simp
  qed
  show ?thesis
    by (intro conjI) (rule c1 c2 c3 c4 c5)+
qed

theorem dangling_child_skipped_missing_model_fatal_witness:
  "traverse_scene_graph (Suc 0) (+) [0 \<mapsto> (7, Vec3 0 0 0, [0, 0, 0])] Map.empty Map.empty
      Map.empty (Vec3 0 0 0) [0, 0, 0] 7 [] = Inr []
   \<and> traverse_scene_graph (Suc 0) (+) [0 \<mapsto> (1, Vec3 0 0 0, [0, 0, 0])] Map.empty [1 \<mapsto> [5]]
      Map.empty (Vec3 0 0 0) [0, 0, 0] 1 [] = Inl KeyError
   \<and> traverse_scene_graph (Suc (Suc 0)) (+) [0 \<mapsto> (1, Vec3 0 0 0, [0, 0, 0])] Map.empty
      [1 \<mapsto> [5]] Map.empty (Vec3 0 0 0) [0, 0, 0] 0 [] = Inl KeyError"
proof -
  let ?T = "[0 \<mapsto> (1, Vec3 0 0 0, [0, 0, 0])] :: transform_nodes"
  let ?S = "[1 \<mapsto> [5]] :: shape_nodes"
  let ?E = "Map.empty :: int \<rightharpoonup> int list"
  let ?M = "Map.empty :: model_table"
  have a: "traverse_scene_graph (Suc 0) (+) [0 \<mapsto> (7, Vec3 0 0 0, [0, 0, 0])] ?E ?E ?M
      (Vec3 0 0 0) [0, 0, 0] 7 [] = Inr []"
    by (rule dangling_child_skipped_missing_model_fatal
          [where T = "[0 \<mapsto> (7, Vec3 0 0 0, [0, 0, 0])]" and cid = 7 and G = ?E
             and S = ?E and M = ?M and n = 0 and fadd = "(+)", THEN conjunct1, THEN mp]) simp
  have b: "traverse_scene_graph (Suc 0) (+) ?T ?E ?S ?M (Vec3 0 0 0) [0, 0, 0] 1 []
      = Inl KeyError"
    by (rule dangling_child_skipped_missing_model_fatal
          [where T = ?T and cid = 1 and G = ?E and S = ?S and M = ?M and n = 0 and fadd = "(+)"
             and ms = "[5]" and m = 5,
           THEN conjunct2, THEN conjunct2, THEN conjunct1, THEN mp]) simp
  have c: "traverse_scene_graph (Suc (Suc 0)) (+) ?T ?E ?S ?M (Vec3 0 0 0) [0, 0, 0] 0 []
      = Inl KeyError"
    by (rule dangling_child_skipped_missing_model_fatal
          [where T = ?T and cid = 0 and G = ?E and S = ?S and M = ?M and n = "Suc 0" and fadd = "(+)"
             and child = 1 and t = "Vec3 0 0 0" and r = "[0, 0, 0]",
           THEN conjunct2, THEN conjunct2, THEN conjunct2, THEN conjunct1, THEN mp])
       (simp add: add_location_def add_rotation_def)
  from a b c show ?thesis by (intro conjI)
qed

section \<open>Rotation byte: proofs\<close>

lemma bin_digits_small: "n < 2 \<Longrightarrow> bin_digits n = [bit_char n]"
  by (subst bin_digits.simps) (simp add: bit_char_def)

lemma bin_digits_step: "2 \<le> n \<Longrightarrow> bin_digits n = bin_digits (n div 2) @ [bit_char (n mod 2)]"
  by (subst bin_digits.simps) (simp add: bit_char_def)

lemma length_bin_digits: "0 < length (bin_digits n)"
  by (subst bin_digits.simps) simp

lemma zfill_step:
  "0 < k \<Longrightarrow> zfill (Suc k) (bin_digits n) = zfill k (bin_digits (n div 2)) @ [bit_char (n mod 2)]"
proof (cases "n < 2")
  case True
  assume k: "0 < k"
  from True have d: "n div 2 = 0" by simp
  have z: "bin_digits 0 = [CHR ''0'']" by (simp add: bin_digits_small bit_char_def)
  have "replicate k CHR ''0'' = replicate (k - 1) CHR ''0'' @ [CHR ''0'']"
    using k by (cases k) (simp_all add: replicate_append_same)
  with True show ?thesis
    by (simp add: zfill_def bin_digits_small d z)
next
  case False
  then show ?thesis
    using length_bin_digits [of "n div 2"]
    by (simp add: zfill_def bin_digits_step Suc_diff_le Suc_leI)
qed

lemma byte_string_bits:
  assumes "n < 256"
  shows "zfill 8 (bin_digits n) =
     [bit_char (n div 128 mod 2), bit_char (n div 64 mod 2), bit_char (n div 32 mod 2),
      bit_char (n div 16 mod 2), bit_char (n div 8 mod 2), bit_char (n div 4 mod 2),
      bit_char (n div 2 mod 2), bit_char (n mod 2)]"
proof -
  have top: "n div 128 < 2" using assms by simp
  have z1: "zfill (Suc 0) (bin_digits (n div 128)) = [bit_char (n div 128 mod 2)]"
    using top by (simp add: zfill_def bin_digits_small)
  have s: "zfill (Suc k) (bin_digits (n div d)) =
           zfill k (bin_digits (n div (d * 2))) @ [bit_char (n div d mod 2)]" if "0 < k" for k d
    using zfill_step [OF that, of "n div d"] by (simp add: div_mult2_eq)
  have "zfill 8 (bin_digits (n div 1)) =
          zfill 7 (bin_digits (n div 2)) @ [bit_char (n div 1 mod 2)]"
    using s [of 7 1] by simp
  also have "zfill 7 (bin_digits (n div 2)) =
          zfill 6 (bin_digits (n div 4)) @ [bit_char (n div 2 mod 2)]"
    using s [of 6 2] by simp
  also have "zfill 6 (bin_digits (n div 4)) =
          zfill 5 (bin_digits (n div 8)) @ [bit_char (n div 4 mod 2)]"
    using s [of 5 4] by simp
  also have "zfill 5 (bin_digits (n div 8)) =
          zfill 4 (bin_digits (n div 16)) @ [bit_char (n div 8 mod 2)]"
    using s [of 4 8] by simp
  also have "zfill 4 (bin_digits (n div 16)) =
          zfill 3 (bin_digits (n div 32)) @ [bit_char (n div 16 mod 2)]"
    using s [of 3 16] by simp
  also have "zfill 3 (bin_digits (n div 32)) =
          zfill 2 (bin_digits (n div 64)) @ [bit_char (n div 32 mod 2)]"
    using s [of 2 32] by simp
  also have "zfill 2 (bin_digits (n div 64)) =
          zfill (Suc 0) (bin_digits (n div 128)) @ [bit_char (n div 64 mod 2)]"
    using s [of 1 64] by (simp add: numeral_2_eq_2)
  finally show ?thesis by (simp add: z1)
qed

lemma int_base2_two_bits:
  assumes "d1 < 2" "d0 < 2"
  shows "int_base2 [bit_char d1, bit_char d0] = Inr (2 * d1 + d0)"
proof -
  from assms have "d1 = 0 \<or> d1 = 1" "d0 = 0 \<or> d0 = 1" by auto
  then show ?thesis by (auto simp: int_base2_def bit_char_def)
qed

lemma low_field: "int_base2 [bit_char (b div 2 mod 2), bit_char (b mod 2)] = Inr (b mod 4)"
proof -
  have "b mod 4 = 2 * (b div 2 mod 2) + b mod 2"
    using mod_mult2_eq [of b 2 2] by simp
  then show ?thesis by (simp add: int_base2_two_bits)
qed

lemma high_field:
  "int_base2 [bit_char (b div 8 mod 2), bit_char (b div 4 mod 2)] = Inr (b div 4 mod 4)"
  using low_field [of "b div 4"] by (simp add: div_mult2_eq [symmetric])

lemma three_cases: "(n::nat) < 3 \<Longrightarrow> n = 0 \<or> n = 1 \<or> n = 2"
  by auto

lemma set_entry_flag_sign:
  "set_entry row col flag m = m[row := (m ! row)[col := flag_sign flag]]"
  by (simp add: set_entry_def flag_sign_def)

lemma flag_sign_bit_char: "flag_sign (bit_char (b div 2 ^ k mod 2)) = sign_bit b k"
  by (simp add: flag_sign_def bit_char_def sign_bit_def)

lemma fill_rows:
  assumes "f < 3" "s < 3" "f \<noteq> s"
  shows "(case list_remove f [0, 1, 2] of
            Inl e \<Rightarrow> Inl e
          | Inr o1 \<Rightarrow>
              (case list_remove s o1 of
                 Inl e \<Rightarrow> Inl e
               | Inr o2 \<Rightarrow>
                   Inr (set_entry 2 (hd o2) c6
                          (set_entry 1 s c5
                             (set_entry 0 f c4 [[0, 0, 0], [0, 0, 0], [0, 0, 0]]))))) =
         Inr [unit_row f (flag_sign c4), unit_row s (flag_sign c5),
              unit_row (3 - f - s) (flag_sign c6)]"
proof -
  consider "f = 0" "s = 1" | "f = 0" "s = 2" | "f = 1" "s = 0"
    | "f = 1" "s = 2" | "f = 2" "s = 0" | "f = 2" "s = 1"
    using assms by linarith
  then show ?thesis
    by cases (simp_all add: list_remove_def set_entry_flag_sign unit_row_def)
qed

lemma parse_rotation_matrix_bits:
  assumes "b < 256" and "b mod 4 < 3" and "b div 4 mod 4 < 3"
    and "b mod 4 \<noteq> b div 4 mod 4"
  shows "parse_rotation_matrix (int b) =
     Inr [unit_row (b mod 4) (sign_bit b 4), unit_row (b div 4 mod 4) (sign_bit b 5),
          unit_row (3 - b mod 4 - b div 4 mod 4) (sign_bit b 6)]"
proof -
  have bs: "zfill 8 (drop 2 (bin (int b))) =
     [bit_char (b div 128 mod 2), bit_char (b div 64 mod 2), bit_char (b div 32 mod 2),
      bit_char (b div 16 mod 2), bit_char (b div 8 mod 2), bit_char (b div 4 mod 2),
      bit_char (b div 2 mod 2), bit_char (b mod 2)]"
    using byte_string_bits [OF assms(1)] by (simp add: bin_def)
  have "parse_rotation_matrix (int b) =
      (case list_remove (b mod 4) [0, 1, 2] of
            Inl e \<Rightarrow> Inl e
          | Inr o1 \<Rightarrow>
              (case list_remove (b div 4 mod 4) o1 of
                 Inl e \<Rightarrow> Inl e
               | Inr o2 \<Rightarrow>
                   Inr (set_entry 2 (hd o2) (bit_char (b div 64 mod 2))
                          (set_entry 1 (b div 4 mod 4) (bit_char (b div 32 mod 2))
                             (set_entry 0 (b mod 4) (bit_char (b div 16 mod 2))
                                [[0, 0, 0], [0, 0, 0], [0, 0, 0]])))))"
    unfolding parse_rotation_matrix_def bs
    by (simp add: Let_def low_field high_field cong: sum.case_cong)
  also have "\<dots> = Inr [unit_row (b mod 4) (flag_sign (bit_char (b div 16 mod 2))),
       unit_row (b div 4 mod 4) (flag_sign (bit_char (b div 32 mod 2))),
       unit_row (3 - b mod 4 - b div 4 mod 4) (flag_sign (bit_char (b div 64 mod 2)))]"
    by (rule fill_rows [OF assms(2,3,4)])
  also have "\<dots> = Inr [unit_row (b mod 4) (sign_bit b 4), unit_row (b div 4 mod 4) (sign_bit b 5),
          unit_row (3 - b mod 4 - b div 4 mod 4) (sign_bit b 6)]"
    using flag_sign_bit_char [of b 4] flag_sign_bit_char [of b 5] flag_sign_bit_char [of b 6]
    by simp
  finally show ?thesis .
qed

lemma one_nonzero_unit_row:
  "c < 3 \<Longrightarrow> a = 1 \<or> a = - 1 \<Longrightarrow> one_nonzero (unit_row c a)"
  using three_cases [of c] by (auto simp: one_nonzero_def unit_row_def)

lemma signed_permutation_rows:
  assumes "f < 3" "s < 3" "f \<noteq> s" "a = 1 \<or> a = - 1" "b = 1 \<or> b = - 1" "c = 1 \<or> c = - 1"
  shows "signed_permutation [unit_row f a, unit_row s b, unit_row (3 - f - s) c]"
proof -
  consider "f = 0" "s = 1" | "f = 0" "s = 2" | "f = 1" "s = 0"
    | "f = 1" "s = 2" | "f = 2" "s = 0" | "f = 2" "s = 1"
    using assms(1-3) by linarith
  then show ?thesis
  proof cases
    case 1 with assms(4-6) show ?thesis
      by (auto simp: signed_permutation_def one_nonzero_def unit_row_def)
  next
    case 2 with assms(4-6) show ?thesis
      by (auto simp: signed_permutation_def one_nonzero_def unit_row_def)
  next
    case 3 with assms(4-6) show ?thesis
      by (auto simp: signed_permutation_def one_nonzero_def unit_row_def)
  next
    case 4 with assms(4-6) show ?thesis
      by (auto simp: signed_permutation_def one_nonzero_def unit_row_def)
  next
    case 5 with assms(4-6) show ?thesis
      by (auto simp: signed_permutation_def one_nonzero_def unit_row_def)
  next
    case 6 with assms(4-6) show ?thesis
      by (auto simp: signed_permutation_def one_nonzero_def unit_row_def)
  qed
qed

lemma euler_identity: "rotation_to_euler [[1, 0, 0], [0, 1, 0], [0, 0, 1]] = Inr (0, 0, 0)"
  by (simp add: rotation_to_euler_def atan2_def)

text \<open>
  Claim C5. For every byte \<open>b < 256\<close> whose fields \<open>b mod 4\<close> (bits 0-1) and
  \<open>b div 4 mod 4\<close> (bits 2-3) are distinct values below 3, \<open>parse_rotation_matrix\<close>
  returns the matrix whose row 0 has its entry in column \<open>b mod 4\<close>, row 1 in column
  \<open>b div 4 mod 4\<close> and row 2 in the remaining column, with signs given by bits 4, 5
  and 6; this matrix is a signed permutation matrix. Byte \<open>0b00000100\<close> decodes to the
  identity, whose Euler angles are \<open>(0, 0, 0)\<close>.
\<close>

theorem rotation_byte_signed_permutation:
  assumes "b < 256" and "b mod 4 < 3" and "b div 4 mod 4 < 3"
    and "b mod 4 \<noteq> b div 4 mod 4"
  shows "parse_rotation_matrix (int b) =
     Inr [unit_row (b mod 4) (sign_bit b 4), unit_row (b div 4 mod 4) (sign_bit b 5),
          unit_row (3 - b mod 4 - b div 4 mod 4) (sign_bit b 6)]
   \<and> signed_permutation
       [unit_row (b mod 4) (sign_bit b 4), unit_row (b div 4 mod 4) (sign_bit b 5),
        unit_row (3 - b mod 4 - b div 4 mod 4) (sign_bit b 6)]
   \<and> parse_rotation_matrix 4 = Inr [[1, 0, 0], [0, 1, 0], [0, 0, 1]]
   \<and> rotation_to_euler [[1, 0, 0], [0, 1, 0], [0, 0, 1]] = Inr (0, 0, 0)"
proof -
  have p: "parse_rotation_matrix 4 = Inr [[1, 0, 0], [0, 1, 0], [0, 0, 1]]"
    using parse_rotation_matrix_bits [of 4] by (simp add: unit_row_def sign_bit_def)
  have q: "signed_permutation
       [unit_row (b mod 4) (sign_bit b 4), unit_row (b div 4 mod 4) (sign_bit b 5),
        unit_row (3 - b mod 4 - b div 4 mod 4) (sign_bit b 6)]"
    by (rule signed_permutation_rows [OF assms(2,3,4)]) (simp_all add: sign_bit_def)
  show ?thesis
    by (intro conjI) (rule parse_rotation_matrix_bits [OF assms] q p euler_identity)+
qed

theorem rotation_byte_signed_permutation_witness:
  "(105::nat) < 256 \<and> (105::nat) mod 4 < 3 \<and> (105::nat) div 4 mod 4 < 3
   \<and> (105::nat) mod 4 \<noteq> 105 div 4 mod 4
   \<and> parse_rotation_matrix 105 = Inr [[0, 1, 0], [0, 0, - 1], [- 1, 0, 0]]
   \<and> signed_permutation [[0, 1, 0], [0, 0, - 1], [- 1, 0, 0]]"
  using rotation_byte_signed_permutation [of 105]
  by (simp add: unit_row_def sign_bit_def)

section \<open>Material records\<close>

lemma length_set_material: "length (set_material mats i k v) = length mats"
  by (simp add: set_material_def)

lemma nth_set_material_other: "j \<noteq> i \<Longrightarrow> set_material mats i k v ! j = mats ! j"
  by (simp add: set_material_def)

lemma apply_matl_step:
  assumes "apply_matl bi mid ((key, val) # rest) mt mats = Inr ms"
    and "py_index (length mats) (mid - 1) = Inr r"
  shows "\<exists>mt' mats'. apply_matl bi mid rest mt' mats' = Inr ms
           \<and> length mats' = length mats \<and> (\<forall>j. j \<noteq> r \<longrightarrow> mats' ! j = mats ! j)"
  using assms
  apply (auto simp: bindE_def Let_def split: if_splits option.splits)
  apply (rule exI, rule exI, erule conjI,
         simp add: length_set_material nth_set_material_other)+
  done

lemma apply_matl_rows:
  "apply_matl bi mid d mt mats = Inr ms \<Longrightarrow> py_index (length mats) (mid - 1) = Inr r \<Longrightarrow>
   length ms = length mats \<and> (\<forall>j. j \<noteq> r \<longrightarrow> ms ! j = mats ! j)"
proof (induction d arbitrary: mt mats)
  case Nil
  then show ?case by simp
next
  case (Cons kv d)
  obtain key val where kv: "kv = (key, val)" by (cases kv)
  from apply_matl_step [OF Cons.prems(1) [unfolded kv] Cons.prems(2)]
  obtain mt' mats' where s: "apply_matl bi mid d mt' mats' = Inr ms"
    "length mats' = length mats" "\<forall>j. j \<noteq> r \<longrightarrow> mats' ! j = mats ! j"
    by blast
  from Cons.IH [OF s(1)] Cons.prems(2) s(2,3) show ?case by simp
qed

lemma apply_matl_same_row:
  "py_index (length mats) (i - 1) = py_index (length mats) (j - 1) \<Longrightarrow>
   apply_matl bi i d mt mats = apply_matl bi j d mt mats"
proof (induction d arbitrary: mt mats)
  case Nil
  then show ?case by simp
next
  case (Cons kv d)
  obtain key val where kv: "kv = (key, val)" by (cases kv)
  have ih: "apply_matl bi i d mt' (set_material mats r k v) =
            apply_matl bi j d mt' (set_material mats r k v)" for mt' r k v
    by (rule Cons.IH) (simp add: length_set_material Cons.prems)
  have ih2: "apply_matl bi i d mt' (set_material (set_material mats r k v) r k' v') =
            apply_matl bi j d mt' (set_material (set_material mats r k v) r k' v')"
    for mt' r k v k' v'
    by (rule Cons.IH) (simp add: length_set_material Cons.prems)
  have ih0: "apply_matl bi i d mt' mats = apply_matl bi j d mt' mats" for mt'
    by (rule Cons.IH) (rule Cons.prems)
  show ?case
    unfolding kv apply_matl.simps Cons.prems ih ih2 ih0 ..
qed

lemma py_index_id0: "py_index 255 (0 - 1) = Inr 254"
  by (simp add: py_index_def)

lemma py_index_id255: "py_index 255 (255 - 1) = Inr 254"
  by (simp add: py_index_def)

lemma handle_MATL_read:
  assumes "read_int content = Inr (mid, c1)" and "\<not> 255 < mid"
    and "read_dict c1 = Inr (d, c2)"
  shows "handle_MATL bi content st =
     (case apply_matl bi mid d (ascii ''_diffuse'') (st_materials st) of
        Inl e \<Rightarrow> Inl e
      | Inr ms \<Rightarrow> Inr (st\<lparr>st_materials := ms\<rparr>))"
  using assms by (simp add: handle_MATL_def bindE_def)

text \<open>
  Claim C10. A \<open>MATL\<close> record whose id reads as 0 is not skipped (only ids above 255
  are): on a table of 255 records it has the effect of the same record for id 255, it
  leaves every record but the one at index 254 unchanged, and a \<open>_rough\<close> property
  overwrites the roughness of the record at index 254, that of palette colour 255.
\<close>

theorem matl_id_zero_writes_last_record:
  assumes "length (st_materials st) = 255"
    and "read_int content = Inr (0, c1)" and "read_dict c1 = Inr (d, c2)"
  shows "(read_int content' = Inr (255, c1) \<longrightarrow>
            handle_MATL bi content st = handle_MATL bi content' st)
   \<and> (handle_MATL bi content st = Inr st' \<longrightarrow>
         length (st_materials st') = 255
         \<and> (\<forall>i. i \<noteq> 254 \<longrightarrow> st_materials st' ! i = st_materials st ! i))
   \<and> (d = [(ascii ''_rough'', v)] \<and> float_of_bytes bi v = Some f \<longrightarrow>
         handle_MATL bi content st =
           Inr (st\<lparr>st_materials :=
                     (st_materials st)[254 := (st_materials st ! 254)[0 := f]]\<rparr>))
   \<and> (read_int content'' = Inr (i, c) \<and> 255 < i \<longrightarrow> handle_MATL bi content'' st = Inr st)"
proof -
  note h0 = handle_MATL_read [OF assms(2) _ assms(3), of bi st, simplified]
  have c1: "read_int content' = Inr (255, c1) \<longrightarrow>
            handle_MATL bi content st = handle_MATL bi content' st"
  proof
    assume r: "read_int content' = Inr (255, c1)"
    have "apply_matl bi 0 d (ascii ''_diffuse'') (st_materials st) =
          apply_matl bi 255 d (ascii ''_diffuse'') (st_materials st)"
      by (rule apply_matl_same_row) (simp add: assms(1) py_index_def)
    then show "handle_MATL bi content st = handle_MATL bi content' st"
      unfolding h0 handle_MATL_read [OF r _ assms(3), of bi st, simplified] by simp
  qed
  have c2: "handle_MATL bi content st = Inr st' \<longrightarrow>
         length (st_materials st') = 255
         \<and> (\<forall>i. i \<noteq> 254 \<longrightarrow> st_materials st' ! i = st_materials st ! i)"
  proof
    assume a: "handle_MATL bi content st = Inr st'"
    then obtain ms where ms: "apply_matl bi 0 d (ascii ''_diffuse'') (st_materials st) = Inr ms"
      and st': "st' = st\<lparr>st_materials := ms\<rparr>"
      unfolding h0 by (auto split: sum.splits)
    have p: "py_index (length (st_materials st)) (0 - 1) = Inr 254"
      by (simp add: assms(1) py_index_def)
    from apply_matl_rows [OF ms p] show "length (st_materials st') = 255
         \<and> (\<forall>i. i \<noteq> 254 \<longrightarrow> st_materials st' ! i = st_materials st ! i)"
      by (simp add: st' assms(1))
  qed
  have c3: "d = [(ascii ''_rough'', v)] \<and> float_of_bytes bi v = Some f \<longrightarrow>
         handle_MATL bi content st =
           Inr (st\<lparr>st_materials :=
                     (st_materials st)[254 := (st_materials st ! 254)[0 := f]]\<rparr>)"
    unfolding h0
    by (simp add: bindE_def py_index_def assms(1) set_material_def ascii_def)
  have c4: "read_int content'' = Inr (i, c) \<and> 255 < i \<longrightarrow> handle_MATL bi content'' st = Inr st"
    by (simp add: handle_MATL_def bindE_def)
  show ?thesis
    by (intro conjI) (rule c1 c2 c3 c4)+
qed

lemma matl_content_bytes:
  "matl_content = [0, 0, 0, 0, 1, 0, 0, 0, 6, 0, 0, 0, 95, 114, 111, 117, 103, 104,
                   3, 0, 0, 0, 48, 46, 49]"
  by (simp add: matl_content_def pack_i_def ascii_def)

lemma read_matl_id: "read_int matl_content = Inr (0, drop 4 matl_content)"
  unfolding matl_content_bytes by (simp add: read_int_def read_content_def le_i32_def)

lemma read_matl_dict:
  "read_dict (drop 4 matl_content) = Inr ([(ascii ''_rough'', ascii ''0.1'')], [])"
proof -
  show ?thesis
    unfolding matl_content_bytes
    by (simp add: read_dict_def read_int_def read_content_def le_i32_def bindE_def
        read_chars_def ascii_def)
qed

theorem matl_id_zero_writes_last_record_witness:
  "length (st_materials initial_state) = 255
   \<and> read_int matl_content = Inr (0, drop 4 matl_content)
   \<and> read_dict (drop 4 matl_content) = Inr ([(ascii ''_rough'', ascii ''0.1'')], [])
   \<and> float_of_bytes rough_builtins (ascii ''0.1'') = Some (1 / 10)
   \<and> handle_MATL rough_builtins matl_content initial_state =
       Inr (initial_state\<lparr>st_materials :=
              (st_materials initial_state)[254 := [1 / 10, 0, 0, 0, 0, 0]]\<rparr>)
   \<and> import_vox_parse rough_builtins matl_file =
       Inr (initial_state\<lparr>st_materials :=
              (st_materials initial_state)[254 := [1 / 10, 0, 0, 0, 0, 0]]\<rparr>)"
proof -
  have l: "length (st_materials initial_state) = 255" by (simp add: initial_state_def)
  have f: "float_of_bytes rough_builtins (ascii ''0.1'') = Some (1 / 10)"
    by (simp add: rough_builtins_def)
  have n: "st_materials initial_state ! 254 = [1 / 2, 0, 0, 0, 0, 0]"
    by (simp add: initial_state_def)
  have h: "handle_MATL rough_builtins matl_content initial_state =
       Inr (initial_state\<lparr>st_materials :=
              (st_materials initial_state)[254 := [1 / 10, 0, 0, 0, 0, 0]]\<rparr>)"
    using matl_id_zero_writes_last_record [OF l read_matl_id read_matl_dict,
        where bi = rough_builtins and v = "ascii ''0.1''" and f = "1 / 10",
        THEN conjunct2, THEN conjunct2, THEN conjunct1] f
    by (simp add: n)
  have hdr: "import_vox_parse rough_builtins matl_file =
      parse_chunks rough_builtins (ascii ''MATL'' @ pack_i 25 @ pack_i 0 @ matl_content)
        initial_state"
    by (simp add: matl_file_def import_vox_parse_def file_read_def bindE_def le_i32_def
        ascii_def pack_i_def)
  have ne: "ascii ''MATL'' @ pack_i 25 @ pack_i 0 @ matl_content \<noteq> []"
    by (simp add: ascii_def)
  have rc: "read_chunk (ascii ''MATL'' @ pack_i 25 @ pack_i 0 @ matl_content) =
      Inr ((ascii ''MATL'', matl_content), [])"
    unfolding matl_content_bytes
    by (simp add: read_chunk_def file_read_def bindE_def le_i32_def ascii_def pack_i_def
        Let_def)
  have hc: "handle_chunk rough_builtins (ascii ''MATL'') matl_content initial_state =
       Inr (initial_state\<lparr>st_materials :=
              (st_materials initial_state)[254 := [1 / 10, 0, 0, 0, 0, 0]]\<rparr>)"
    unfolding h [symmetric] by (simp add: handle_chunk_def ascii_def)
  have p: "import_vox_parse rough_builtins matl_file =
       Inr (initial_state\<lparr>st_materials :=
              (st_materials initial_state)[254 := [1 / 10, 0, 0, 0, 0, 0]]\<rparr>)"
    unfolding hdr parse_chunks_step [OF ne rc hc] by (rule parse_chunks_Nil)
  from l read_matl_id read_matl_dict f h p show ?thesis by (intro conjI)
qed

end
